theory Spec2Isabelle
  imports Complex_Main "HOL-Library.Char_ord" "HOL-Library.List_Lexorder" "HOL-Library.Sublist"
begin

section \<open>JavaScript strings and numbers\<close>

text \<open>
  A JavaScript string is modelled as a HOL \<open>string\<close>: a sequence of code units in the range
  U+0000 .. U+00FF (Latin-1). Every literal, keyword and character class of the source lies in
  that range. \<open>charCodeAt\<close> is \<open>of_char\<close>.
\<close>

definition charCodeAt :: "char \<Rightarrow> int" where
  "charCodeAt c = int (of_char c)"

definition isSpace :: "char \<Rightarrow> bool" where
  \<comment> \<open>the regular expression class \<open>\s\<close> and the characters \<open>trim\<close> removes, within Latin-1\<close>
  "isSpace c = (of_char c \<in> {9, 10, 11, 12, 13, 32, 160 :: nat})"

definition isDigit :: "char \<Rightarrow> bool" where
  "isDigit c = (48 \<le> (of_char c :: nat) \<and> (of_char c :: nat) \<le> 57)"

definition isUpperAZ :: "char \<Rightarrow> bool" where
  "isUpperAZ c = (65 \<le> (of_char c :: nat) \<and> (of_char c :: nat) \<le> 90)"

definition isLowerAZ :: "char \<Rightarrow> bool" where
  "isLowerAZ c = (97 \<le> (of_char c :: nat) \<and> (of_char c :: nat) \<le> 122)"

definition isWord :: "char \<Rightarrow> bool" where
  \<comment> \<open>the class \<open>\w\<close>: \<open>[A-Za-z0-9_]\<close>\<close>
  "isWord c = (isUpperAZ c \<or> isLowerAZ c \<or> isDigit c \<or> c = CHR ''_'')"

definition trim :: "string \<Rightarrow> string" where
  "trim s = rev (dropWhile isSpace (rev (dropWhile isSpace s)))"

definition lowerChar :: "char \<Rightarrow> char" where
  "lowerChar c =
     (let n = (of_char c :: nat)
      in if (65 \<le> n \<and> n \<le> 90) \<or> (192 \<le> n \<and> n \<le> 222 \<and> n \<noteq> 215)
         then char_of (n + 32) else c)"

definition toLowerCase :: "string \<Rightarrow> string" where
  "toLowerCase s = map lowerChar s"

definition upperChar :: "char \<Rightarrow> string" where
  \<comment> \<open>U+00DF upper-cases to the two letters SS. The upper-case forms of U+00B5 and U+00FF lie
      outside Latin-1; both the characters and their images are outside \<open>\w\<close>, \<open>\s\<close> and
      \<open>-\<close>, and they are left as they are.\<close>
  "upperChar c =
     (let n = (of_char c :: nat)
      in if (97 \<le> n \<and> n \<le> 122) \<or> (224 \<le> n \<and> n \<le> 254 \<and> n \<noteq> 247)
         then [char_of (n - 32)]
         else if n = 223 then ''SS'' else [c])"

definition toUpperCase :: "string \<Rightarrow> string" where
  "toUpperCase s = concat (map upperChar s)"

definition digitChar :: "nat \<Rightarrow> char" where
  "digitChar d = ''0123456789abcdefghijklmnopqrstuvwxyz'' ! d"

fun natToString :: "nat \<Rightarrow> nat \<Rightarrow> string" where
  \<comment> \<open>\<open>n.toString(radix)\<close> for a non-negative integer\<close>
  "natToString radix n =
     (if radix < 2 \<or> n < radix then [digitChar n]
      else natToString radix (n div radix) @ [digitChar (n mod radix)])"

declare natToString.simps [simp del]

definition intToString :: "int \<Rightarrow> string" where
  \<comment> \<open>\<open>String(n)\<close> for an integer below \<open>10^21\<close> in magnitude\<close>
  "intToString n = (if n < 0 then ''-'' @ natToString 10 (nat (- n)) else natToString 10 (nat n))"

definition padStart :: "nat \<Rightarrow> char \<Rightarrow> string \<Rightarrow> string" where
  "padStart n c s = replicate (n - length s) c @ s"

definition toInt32 :: "int \<Rightarrow> int" where
  \<comment> \<open>the conversion every bitwise operator applies to its operands\<close>
  "toInt32 x = (x + 2 ^ 31) mod 2 ^ 32 - 2 ^ 31"

fun intercalate :: "string \<Rightarrow> string list \<Rightarrow> string" where
  "intercalate sep [] = []"
| "intercalate sep [x] = x"
| "intercalate sep (x # y # ys) = x @ sep @ intercalate sep (y # ys)"

section \<open>Dates\<close>

text \<open>
  A \<open>Date\<close> holds a time value: milliseconds since the epoch, or NaN (an invalid date).
\<close>

datatype jsdate = Time int | InvalidDate

definition msPerDay :: int where
  "msPerDay = 86400000"

text \<open>
  The calendar date of a day number (days since the epoch), in the proleptic Gregorian
  calendar: the days are counted in eras of 400 years that begin on a first of March.
\<close>

definition eraOf :: "int \<Rightarrow> int" where
  "eraOf z = z div 146097"

definition dayOfEra :: "int \<Rightarrow> int" where
  "dayOfEra z = z - eraOf z * 146097"

definition yearOfEra :: "int \<Rightarrow> int" where
  "yearOfEra doe = (doe - doe div 1460 + doe div 36524 - doe div 146096) div 365"

definition dayOfYear :: "int \<Rightarrow> int" where
  \<comment> \<open>counted from the first of March\<close>
  "dayOfYear doe = doe - (365 * yearOfEra doe + yearOfEra doe div 4 - yearOfEra doe div 100)"

definition monthIndex :: "int \<Rightarrow> int" where
  \<comment> \<open>0 for March, 11 for February\<close>
  "monthIndex doy = (5 * doy + 2) div 153"

definition dayOfMonth :: "int \<Rightarrow> int" where
  "dayOfMonth doy = doy - (153 * monthIndex doy + 2) div 5 + 1"

definition monthOf :: "int \<Rightarrow> int" where
  "monthOf doy = (if monthIndex doy < 10 then monthIndex doy + 3 else monthIndex doy - 9)"

definition yearOf :: "int \<Rightarrow> int" where
  "yearOf z = yearOfEra (dayOfEra z) + eraOf z * 400 +
     (if monthOf (dayOfYear (dayOfEra z)) \<le> 2 then 1 else 0)"

definition civilFromDays :: "int \<Rightarrow> int \<times> int \<times> int" where
  \<comment> \<open>year, month (1..12) and day of the month of a day number\<close>
  "civilFromDays days =
     (yearOf (days + 719468),
      monthOf (dayOfYear (dayOfEra (days + 719468))),
      dayOfMonth (dayOfYear (dayOfEra (days + 719468))))"

definition pad2 :: "int \<Rightarrow> string" where
  "pad2 n = padStart 2 CHR ''0'' (intToString n)"

definition isoYear :: "int \<Rightarrow> string" where
  "isoYear y =
     (if 0 \<le> y \<and> y \<le> 9999 then padStart 4 CHR ''0'' (intToString y)
      else (if y < 0 then ''-'' else ''+'') @ padStart 6 CHR ''0'' (intToString (abs y)))"

definition isoDate :: "int \<Rightarrow> string" where
  \<comment> \<open>the part of \<open>toISOString()\<close> before the \<open>T\<close>\<close>
  "isoDate t = (case civilFromDays (t div msPerDay) of
      (y, m, d) \<Rightarrow> isoYear y @ ''-'' @ pad2 m @ ''-'' @ pad2 d)"

definition isoTime :: "int \<Rightarrow> string" where
  "isoTime t =
     (let r = t mod msPerDay
      in pad2 (r div 3600000) @ '':'' @ pad2 (r div 60000 mod 60) @ '':'' @
         pad2 (r div 1000 mod 60) @ ''.'' @ padStart 3 CHR ''0'' (intToString (r mod 1000)) @ ''Z'')"

datatype js_error = TypeError | RangeError | Error string

definition toISOString :: "jsdate \<Rightarrow> js_error + string" where
  "toISOString d = (case d of
       InvalidDate \<Rightarrow> Inl RangeError
     | Time t \<Rightarrow> Inr (isoDate t @ ''T'' @ isoTime t))"

section \<open>The host\<close>

text \<open>
  What the code reads from its surroundings: the clock (\<open>Date.now()\<close>), the random source
  (\<open>Math.random().toString(36)\<close>), the collation of \<open>localeCompare\<close>, the local time zone
  offset in milliseconds at a time value, and the time value \<open>new Date(s)\<close> gives a string.
\<close>

record host =
  now :: int
  random36 :: string
  localeCompare :: "string \<Rightarrow> string \<Rightarrow> int"
  localTZA :: "int \<Rightarrow> int"
  dateParse :: "string \<Rightarrow> jsdate"

section \<open>DataHashService\<close>

text \<open>
  The fields of a batch are untyped in the source. A field read through \<open>_normalizeString\<close>
  is a string, a falsy value (undefined, null, false, 0, NaN), or another value given by its
  \<open>String()\<close> conversion. A \<open>dateTime\<close> field is falsy, or given by the time value that
  \<open>new Date(dateTime)\<close> holds. \<open>transfersCount\<close> is given by the result of
  \<open>parseInt(value, 10)\<close>, \<open>None\<close> for NaN. \<open>None\<close> for \<open>transfers\<close> and
  \<open>filesProcessed\<close> is a value that is not an array.
\<close>

datatype jsval = JStr string | JFalsy | JOther string

datatype dateval = DtFalsy | DtDate jsdate

record hashTransfer =
  t_vehicleId :: jsval
  t_toDriver :: jsval
  t_fromDriver :: jsval
  t_dateTime :: dateval

record processingData =
  transfersCount :: "int option"
  transfers :: "hashTransfer list option"
  filesProcessed :: "jsval list option"
  source :: jsval
  department :: jsval

datatype json = JNull | JNum int | JString string | JArray "json list"
  | JObject "(string \<times> json) list"

definition normalizeNumber :: "int option \<Rightarrow> int" where
  "normalizeNumber v = (case v of None \<Rightarrow> 0 | Some n \<Rightarrow> n)"

definition normalizeString :: "jsval \<Rightarrow> string" where
  "normalizeString v = (case v of
       JStr s \<Rightarrow> toLowerCase (trim s)
     | JFalsy \<Rightarrow> ''''
     | JOther s \<Rightarrow> s)"

record normTransfer =
  n_vehicleId :: string
  n_toDriver :: string
  n_fromDriver :: string
  n_dateTime :: "string option"

definition normalizeTransfer :: "hashTransfer \<Rightarrow> js_error + normTransfer" where
  "normalizeTransfer t =
     (case (case t_dateTime t of
              DtFalsy \<Rightarrow> Inr None
            | DtDate d \<Rightarrow> (case toISOString d of Inl e \<Rightarrow> Inl e | Inr s \<Rightarrow> Inr (Some s))) of
        Inl e \<Rightarrow> Inl e
      | Inr dt \<Rightarrow> Inr \<lparr> n_vehicleId = normalizeString (t_vehicleId t),
                        n_toDriver = normalizeString (t_toDriver t),
                        n_fromDriver = normalizeString (t_fromDriver t),
                        n_dateTime = dt \<rparr>)"

fun mapE :: "('a \<Rightarrow> js_error + 'b) \<Rightarrow> 'a list \<Rightarrow> js_error + 'b list" where
  \<comment> \<open>\<open>Array.prototype.map\<close> with a callback that may throw: the first throw ends the loop\<close>
  "mapE f [] = Inr []"
| "mapE f (x # xs) =
     (case f x of
        Inl e \<Rightarrow> Inl e
      | Inr y \<Rightarrow> (case mapE f xs of Inl e \<Rightarrow> Inl e | Inr ys \<Rightarrow> Inr (y # ys)))"

definition sortKey :: "normTransfer \<Rightarrow> string" where
  "sortKey a = n_vehicleId a @ ''-'' @ n_toDriver a @ ''-'' @ n_fromDriver a"

fun insertBy :: "('a \<Rightarrow> 'a \<Rightarrow> int) \<Rightarrow> 'a \<Rightarrow> 'a list \<Rightarrow> 'a list" where
  "insertBy cmp x [] = [x]"
| "insertBy cmp x (y # ys) = (if cmp x y \<le> 0 then x # y # ys else y # insertBy cmp x ys)"

definition sortBy :: "('a \<Rightarrow> 'a \<Rightarrow> int) \<Rightarrow> 'a list \<Rightarrow> 'a list" where
  \<comment> \<open>\<open>Array.prototype.sort(compareFn)\<close>: a stable sort\<close>
  "sortBy cmp xs = foldr (insertBy cmp) xs []"

definition normalizeTransfers :: "host \<Rightarrow> hashTransfer list option \<Rightarrow> js_error + normTransfer list" where
  "normalizeTransfers h ts = (case ts of
       None \<Rightarrow> Inr []
     | Some xs \<Rightarrow> (case mapE normalizeTransfer xs of
          Inl e \<Rightarrow> Inl e
        | Inr ys \<Rightarrow> Inr (sortBy (\<lambda>a b. localeCompare h (sortKey a) (sortKey b)) ys)))"

definition normalizeFilesList :: "jsval list option \<Rightarrow> string list" where
  "normalizeFilesList files = (case files of
       None \<Rightarrow> []
     | Some fs \<Rightarrow> sort (filter (\<lambda>file. length file > 0) (map normalizeString fs)))"

record normData =
  nd_transfersCount :: int
  nd_transfers :: "normTransfer list"
  nd_filesProcessed :: "string list"
  nd_source :: string
  nd_department :: string

definition normalizeData :: "host \<Rightarrow> processingData \<Rightarrow> js_error + normData" where
  "normalizeData h data =
     (case normalizeTransfers h (transfers data) of
        Inl e \<Rightarrow> Inl e
      | Inr ts \<Rightarrow> Inr \<lparr> nd_transfersCount = normalizeNumber (transfersCount data),
                        nd_transfers = ts,
                        nd_filesProcessed = normalizeFilesList (filesProcessed data),
                        nd_source = normalizeString (source data),
                        nd_department = normalizeString (department data) \<rparr>)"

subsection \<open>Serialization\<close>

definition transferJson :: "normTransfer \<Rightarrow> json" where
  "transferJson t = JObject
     [(''vehicleId'', JString (n_vehicleId t)),
      (''toDriver'', JString (n_toDriver t)),
      (''fromDriver'', JString (n_fromDriver t)),
      (''dateTime'', (case n_dateTime t of None \<Rightarrow> JNull | Some s \<Rightarrow> JString s))]"

definition dataJson :: "normData \<Rightarrow> json" where
  \<comment> \<open>the object literal of \<open>_normalizeData\<close>, keys in the order written\<close>
  "dataJson d = JObject
     [(''transfersCount'', JNum (nd_transfersCount d)),
      (''transfers'', JArray (map transferJson (nd_transfers d))),
      (''filesProcessed'', JArray (map JString (nd_filesProcessed d))),
      (''source'', JString (nd_source d)),
      (''department'', JString (nd_department d))]"

definition hex4 :: "nat \<Rightarrow> string" where
  "hex4 n = padStart 4 CHR ''0'' (natToString 16 n)"

definition quoteChar :: "char \<Rightarrow> string" where
  "quoteChar c =
     (let n = (of_char c :: nat)
      in if n = 34 then [CHR 0x5C, CHR 0x22]
         else if n = 92 then [CHR 0x5C, CHR 0x5C]
         else if n = 8 then [CHR 0x5C, CHR ''b'']
         else if n = 12 then [CHR 0x5C, CHR ''f'']
         else if n = 10 then [CHR 0x5C, CHR ''n'']
         else if n = 13 then [CHR 0x5C, CHR ''r'']
         else if n = 9 then [CHR 0x5C, CHR ''t'']
         else if n < 32 then [CHR 0x5C, CHR ''u''] @ hex4 n
         else [c])"

definition quoteJSON :: "string \<Rightarrow> string" where
  "quoteJSON s = [CHR 0x22] @ concat (map quoteChar s) @ [CHR 0x22]"

fun stringify :: "json \<Rightarrow> string"
  and stringifyList :: "json list \<Rightarrow> string list"
  and stringifyProps :: "(string \<times> json) list \<Rightarrow> (string \<times> string) list" where
  \<comment> \<open>\<open>JSON.stringify(data, replacer, 0)\<close>, the replacer rebuilding every object with its
      keys sorted: the properties of an object are written in the order of their keys\<close>
  "stringify JNull = ''null''"
| "stringify (JNum n) = intToString n"
| "stringify (JString s) = quoteJSON s"
| "stringify (JArray xs) = ''['' @ intercalate '','' (stringifyList xs) @ '']''"
| "stringify (JObject kvs) =
     ''{'' @ intercalate '','' (map snd (sort_key fst (stringifyProps kvs))) @ ''}''"
| "stringifyList [] = []"
| "stringifyList (x # xs) = stringify x # stringifyList xs"
| "stringifyProps [] = []"
| "stringifyProps ((k, v) # kvs) = (k, quoteJSON k @ '':'' @ stringify v) # stringifyProps kvs"

definition serializeData :: "normData \<Rightarrow> string" where
  \<comment> \<open>\<open>JSON.stringify\<close> does not throw on normalized data (strings, integers, null and
      arrays of them), so the \<open>catch\<close> block of the source is not reached\<close>
  "serializeData d = stringify (dataJson d)"

subsection \<open>Hashing\<close>

definition hashStep :: "int \<Rightarrow> char \<Rightarrow> int" where
  \<comment> \<open>\<open>hash = ((hash << 5) + hash) + char; hash = hash & hash\<close>\<close>
  "hashStep hash c = toInt32 ((toInt32 (toInt32 hash * 32) + hash) + charCodeAt c)"

definition calculateChecksum :: "string \<Rightarrow> string" where
  "calculateChecksum str =
     padStart 2 CHR ''0'' (natToString 16 (nat (foldl (\<lambda>sum c. sum + charCodeAt c) 0 str mod 256)))"

definition calculateHash :: "string \<Rightarrow> string" where
  "calculateHash str =
     (let hash = foldl hashStep 5381 str;
          hashStr = padStart 8 CHR ''0'' (natToString 16 (nat (abs hash)));
          checksum = calculateChecksum str
      in hashStr @ checksum)"

definition generateFallbackHash :: "host \<Rightarrow> string" where
  "generateFallbackHash h =
     (let timestamp = intToString (now h);
          random = drop 2 (random36 h)
      in calculateHash (''fallback_'' @ timestamp @ ''_'' @ random))"

definition tryGenerateDataHash :: "host \<Rightarrow> processingData \<Rightarrow> js_error + string" where
  \<comment> \<open>the body of the \<open>try\<close> block of \<open>generateDataHash\<close>, without its call of the logger\<close>
  "tryGenerateDataHash h data =
     (case normalizeData h data of
        Inl e \<Rightarrow> Inl e
      | Inr normalizedData \<Rightarrow> Inr (calculateHash (serializeData normalizedData)))"

definition generateDataHash :: "host \<Rightarrow> processingData \<Rightarrow> string" where
  "generateDataHash h data =
     (case tryGenerateDataHash h data of
        Inr hash \<Rightarrow> hash
      | Inl error \<Rightarrow> generateFallbackHash h)"

definition isHexChar :: "char \<Rightarrow> bool" where
  \<comment> \<open>the class \<open>[0-9a-f]\<close>\<close>
  "isHexChar c = (isDigit c \<or> (97 \<le> (of_char c :: nat) \<and> (of_char c :: nat) \<le> 102))"

definition isValidHash :: "string \<Rightarrow> bool" where
  \<comment> \<open>\<open>/^[0-9a-f]{10}$/.test(hash)\<close>\<close>
  "isValidHash hash = (length hash = 10 \<and> list_all isHexChar hash)"

section \<open>Regular expressions\<close>

text \<open>
  The regular expressions of the parser, as syntax trees, and a backtracking matcher that
  lists the ways a pattern matches at the start of a string, in the order in which the
  engine of JavaScript tries them: the first entry is the match \<open>exec\<close> reports. A
  quantifier of the source stands on a character class, on \<open>.\<close>, or is the \<open>?\<close> on a group.
\<close>

datatype regex =
    Lit string
  | Rep "char \<Rightarrow> bool" nat "nat option" bool
  | Seq "regex list"
  | Alt "regex list"
  | Opt regex
  | Group nat regex
  | Eol

type_synonym caps = "(nat \<times> string) list"

definition canonChar :: "char \<Rightarrow> char" where
  \<comment> \<open>the canonical form under the \<open>i\<close> flag: the upper-case form when it is one code unit\<close>
  "canonChar c =
     (let n = (of_char c :: nat)
      in if (97 \<le> n \<and> n \<le> 122) \<or> (224 \<le> n \<and> n \<le> 254 \<and> n \<noteq> 247)
         then char_of (n - 32) else c)"

definition classMatches :: "bool \<Rightarrow> (char \<Rightarrow> bool) \<Rightarrow> char \<Rightarrow> bool" where
  \<comment> \<open>under the \<open>i\<close> flag a class matches a character when it holds a character of the same
      canonical form\<close>
  "classMatches ic p c = (p c \<or> (ic \<and> (p (lowerChar c) \<or> p (canonChar c))))"

definition litMatches :: "bool \<Rightarrow> string \<Rightarrow> string \<Rightarrow> bool" where
  "litMatches ic l s =
     (length l \<le> length s \<and>
      (if ic then map canonChar (take (length l) s) = map canonChar l
       else take (length l) s = l))"

definition repCounts :: "nat \<Rightarrow> nat option \<Rightarrow> bool \<Rightarrow> nat \<Rightarrow> nat list" where
  \<comment> \<open>the numbers of repetitions tried when \<open>run\<close> characters of the class follow: the greedy
      quantifier tries the longest first, the lazy one the shortest\<close>
  "repCounts lo hi greedy run =
     (let top = (case hi of None \<Rightarrow> run | Some m \<Rightarrow> min m run);
          up = [lo ..< Suc top]
      in if greedy then rev up else up)"

fun matchRe :: "bool \<Rightarrow> regex \<Rightarrow> string \<Rightarrow> caps \<Rightarrow> (string \<times> caps) list"
  and matchSeq :: "bool \<Rightarrow> regex list \<Rightarrow> string \<Rightarrow> caps \<Rightarrow> (string \<times> caps) list"
  and matchAlt :: "bool \<Rightarrow> regex list \<Rightarrow> string \<Rightarrow> caps \<Rightarrow> (string \<times> caps) list" where
  "matchRe ic (Lit l) s cs = (if litMatches ic l s then [(drop (length l) s, cs)] else [])"
| "matchRe ic (Rep p lo hi greedy) s cs =
     map (\<lambda>n. (drop n s, cs)) (repCounts lo hi greedy (length (takeWhile (classMatches ic p) s)))"
| "matchRe ic (Seq rs) s cs = matchSeq ic rs s cs"
| "matchRe ic (Alt rs) s cs = matchAlt ic rs s cs"
| "matchRe ic (Opt r) s cs = matchRe ic r s cs @ [(s, cs)]"
| "matchRe ic (Group i r) s cs =
     map (\<lambda>(rest, cs'). (rest, (i, take (length s - length rest) s) # cs')) (matchRe ic r s cs)"
| "matchRe ic Eol s cs = (if s = [] then [(s, cs)] else [])"
| "matchSeq ic [] s cs = [(s, cs)]"
| "matchSeq ic (r # rs) s cs =
     concat (map (\<lambda>(rest, cs'). matchSeq ic rs rest cs') (matchRe ic r s cs))"
| "matchAlt ic [] s cs = []"
| "matchAlt ic (r # rs) s cs = matchRe ic r s cs @ matchAlt ic rs s cs"

record rmatch =
  m_index :: nat
  m_text :: string
  m_caps :: caps

definition matchAt :: "bool \<Rightarrow> regex \<Rightarrow> string \<Rightarrow> (nat \<times> caps) option" where
  \<comment> \<open>the length and the captures of the match starting at the head of \<open>s\<close>\<close>
  "matchAt ic r s = (case matchRe ic r s [] of
       [] \<Rightarrow> None
     | (rest, cs) # _ \<Rightarrow> Some (length s - length rest, cs))"

fun execFrom :: "bool \<Rightarrow> regex \<Rightarrow> nat \<Rightarrow> string \<Rightarrow> rmatch option" where
  \<comment> \<open>\<open>exec\<close> with \<open>lastIndex = 0\<close>: the leftmost match; \<open>i\<close> counts the characters passed\<close>
  "execFrom ic r i [] = (case matchAt ic r [] of
       None \<Rightarrow> None
     | Some (n, cs) \<Rightarrow> Some \<lparr> m_index = i, m_text = [], m_caps = cs \<rparr>)"
| "execFrom ic r i (c # s) = (case matchAt ic r (c # s) of
       None \<Rightarrow> execFrom ic r (Suc i) s
     | Some (n, cs) \<Rightarrow> Some \<lparr> m_index = i, m_text = take n (c # s), m_caps = cs \<rparr>)"

definition exec :: "bool \<Rightarrow> regex \<Rightarrow> string \<Rightarrow> rmatch option" where
  "exec ic r s = execFrom ic r 0 s"

fun execAll :: "bool \<Rightarrow> regex \<Rightarrow> nat \<Rightarrow> nat \<Rightarrow> string \<Rightarrow> rmatch list option" where
  \<comment> \<open>the loop \<open>while ((match = pattern.exec(text)) !== null)\<close> of a pattern with the
      \<open>g\<close> flag: each search resumes where the last match ended (\<open>skip\<close> characters of the
      last match are still ahead). An empty match leaves \<open>lastIndex\<close> where it is and the loop
      never ends: \<open>None\<close>.\<close>
  "execAll ic r i skip [] =
     (if skip > 0 then Some []
      else case matchAt ic r [] of None \<Rightarrow> Some [] | Some (n, cs) \<Rightarrow> None)"
| "execAll ic r i skip (c # s) =
     (if skip > 0 then execAll ic r (Suc i) (skip - 1) s
      else case matchAt ic r (c # s) of
          None \<Rightarrow> execAll ic r (Suc i) 0 s
        | Some (n, cs) \<Rightarrow>
            (if n = 0 then None
             else map_option ((#) \<lparr> m_index = i, m_text = take n (c # s), m_caps = cs \<rparr>)
                    (execAll ic r (Suc i) (n - 1) s)))"

definition capture :: "rmatch \<Rightarrow> nat \<Rightarrow> string" where
  \<comment> \<open>\<open>match[i]\<close>; a group that took no part gives the empty string here, which the
      cleaning functions treat as they treat \<open>undefined\<close>\<close>
  "capture m i = (case map_of (m_caps m) i of None \<Rightarrow> [] | Some s \<Rightarrow> s)"

section \<open>WhatsAppParser\<close>

definition space :: regex where
  "space = Rep isSpace 1 None True"

definition plateClass :: "char \<Rightarrow> bool" where
  \<comment> \<open>\<open>[A-Z0-9\-\s]\<close>\<close>
  "plateClass c = (isUpperAZ c \<or> isDigit c \<or> c = CHR ''-'' \<or> isSpace c)"

definition nameClass :: "char \<Rightarrow> bool" where
  \<comment> \<open>\<open>[A-Za-z\<dots>\s]\<close> with the accented vowels and the letter enye, upper and lower case\<close>
  "nameClass c = (isUpperAZ c \<or> isLowerAZ c \<or> isSpace c \<or>
     of_char c \<in> {0xC1, 0xC9, 0xCD, 0xD3, 0xDA, 0xE1, 0xE9, 0xED, 0xF3, 0xFA, 0xD1, 0xF1 :: nat})"

definition anyChar :: "char \<Rightarrow> bool" where
  \<comment> \<open>\<open>.\<close>: any character but a line terminator\<close>
  "anyChar c = (of_char c \<notin> {10, 13 :: nat})"

definition vehicleWord :: regex where
  \<comment> \<open>\<open>(?:carro|veh\<dots>culo|auto|taxi)\<close>\<close>
  "vehicleWord = Alt [Lit ''carro'', Lit (''veh'' @ [CHR 0xED] @ ''culo''), Lit ''auto'', Lit ''taxi'']"

definition optEl :: regex where
  \<comment> \<open>\<open>(?:el\s+)?\<close>\<close>
  "optEl = Opt (Seq [Lit ''el'', space])"

definition plateGroup :: "nat \<Rightarrow> regex" where
  "plateGroup i = Group i (Rep plateClass 1 None True)"

definition nameGroup :: "nat \<Rightarrow> regex" where
  "nameGroup i = Group i (Rep nameClass 1 None True)"

definition passTo :: regex where
  \<comment> \<open>le paso el carro X a Y\<close>
  "passTo =
     Seq [Alt [Seq [Lit ''le'', space, Lit ''paso''], Lit ''paso'', Lit ''entrego'', Lit ''doy''],
          space, optEl, vehicleWord, space, plateGroup 1, space, Lit ''a'', space, nameGroup 2]"

definition seLoPaso :: regex where
  \<comment> \<open>el carro X se lo paso a Y\<close>
  "seLoPaso =
     Seq [optEl, vehicleWord, space, plateGroup 1, space, Lit ''se'', space, Lit ''lo'', space,
          Alt [Lit ''paso'', Lit ''entrego'', Lit ''doy''], space, Lit ''a'', space, nameGroup 2]"

definition recibe :: regex where
  \<comment> \<open>Y recibe el carro X\<close>
  "recibe =
     Seq [nameGroup 1, space, Alt [Lit ''recibe'', Lit ''toma'', Lit ''agarra''], space, optEl,
          vehicleWord, space, plateGroup 2]"

definition transferir :: regex where
  \<comment> \<open>transferir carro X a Y\<close>
  "transferir =
     Seq [Alt [Lit ''transferir'', Lit ''transferencia''], space, optEl, vehicleWord, space,
          plateGroup 1, space, Lit ''a'', space, nameGroup 2]"

definition dejaToma :: regex where
  \<comment> \<open>X deja el carro, Y lo toma\<close>
  "dejaToma =
     Seq [nameGroup 1, space, Alt [Lit ''deja'', Lit ''entrega''], space, optEl, vehicleWord, space,
          plateGroup 2, Rep anyChar 0 None False, nameGroup 3, space,
          Alt [Seq [Lit ''lo'', space, Lit ''toma''], Seq [Lit ''lo'', space, Lit ''recibe''],
               Seq [Lit ''lo'', space, Lit ''agarra'']]]"

definition carroPara :: regex where
  \<comment> \<open>carro X para Y\<close>
  "carroPara = Seq [vehicleWord, space, plateGroup 1, space, Lit ''para'', space, nameGroup 2]"

definition transferPatterns :: "regex list" where
  \<comment> \<open>all with the flags \<open>g\<close> and \<open>i\<close>\<close>
  "transferPatterns = [passTo, seLoPaso, recibe, transferir, dejaToma, carroPara]"

definition digits :: "nat \<Rightarrow> nat \<Rightarrow> regex" where
  \<comment> \<open>\<open>\d{lo,hi}\<close>\<close>
  "digits lo hi = Rep isDigit lo (Some hi) True"

definition isChar :: "char \<Rightarrow> char \<Rightarrow> bool" where
  "isChar a c = (c = a)"

definition slashDate :: "nat \<Rightarrow> regex" where
  \<comment> \<open>\<open>\d{1,2}\/\d{1,2}\/\d{n}\<close>\<close>
  "slashDate n = Seq [digits 1 2, Lit ''/'', digits 1 2, Lit ''/'', digits n n]"

definition longYearLayout :: regex where
  \<comment> \<open>DD/MM/YYYY, HH:MM\<close>
  "longYearLayout =
     Seq [Group 1 (slashDate 4), Rep (isChar CHR '','') 0 (Some 1) True, Rep isSpace 0 None True,
          Group 2 (Seq [digits 1 2, Lit '':'', digits 2 2])]"

definition shortYearLayout :: regex where
  \<comment> \<open>DD/MM/YY, HH:MM\<close>
  "shortYearLayout =
     Seq [Group 1 (slashDate 2), Rep (isChar CHR '','') 0 (Some 1) True, Rep isSpace 0 None True,
          Group 2 (Seq [digits 1 2, Lit '':'', digits 2 2])]"

definition bracketLayout :: regex where
  \<comment> \<open>[DD/MM/YY HH:MM:SS]\<close>
  "bracketLayout =
     Seq [Lit ''['', Group 1 (slashDate 2), space,
          Group 2 (Seq [digits 1 2, Lit '':'', digits 2 2, Lit '':'', digits 2 2]), Lit '']'']"

definition dateTimePatterns :: "regex list" where
  \<comment> \<open>all with the flag \<open>g\<close>\<close>
  "dateTimePatterns = [longYearLayout, shortYearLayout, bracketLayout]"

subsection \<open>Cleaning the captured tokens\<close>

fun collapseSpaces :: "bool \<Rightarrow> string \<Rightarrow> string" where
  \<comment> \<open>\<open>replace(/\s+/g, ' ')\<close>: every run of white space becomes one blank; the flag tells
      that the character before belongs to a run already replaced\<close>
  "collapseSpaces inRun [] = []"
| "collapseSpaces inRun (c # cs) =
     (if isSpace c then (if inRun then collapseSpaces True cs else CHR '' '' # collapseSpaces True cs)
      else c # collapseSpaces False cs)"

definition cleanVehicleId :: "string \<Rightarrow> string" where
  "cleanVehicleId vehicleId =
     (if vehicleId = [] then []
      else trim (filter (\<lambda>c. isWord c \<or> isSpace c \<or> c = CHR ''-'')
                  (collapseSpaces False (toUpperCase (trim vehicleId)))))"

definition replaceAtStart :: "regex \<Rightarrow> string \<Rightarrow> string \<Rightarrow> string" where
  \<comment> \<open>\<open>replace\<close> with a pattern anchored by \<open>^\<close>, no flags\<close>
  "replaceAtStart r rep s = (case matchAt False r s of
       None \<Rightarrow> s
     | Some (n, cs) \<Rightarrow> rep @ drop n s)"

definition replaceFirst :: "regex \<Rightarrow> string \<Rightarrow> string \<Rightarrow> string" where
  \<comment> \<open>\<open>replace\<close> with a pattern without the \<open>g\<close> flag: the leftmost match only\<close>
  "replaceFirst r rep s = (case exec False r s of
       None \<Rightarrow> s
     | Some m \<Rightarrow> take (m_index m) s @ rep @ drop (m_index m + length (m_text m)) s)"

definition leadingDash :: regex where
  \<comment> \<open>\<open>/^\s*-\s*/\<close>, the anchor left to \<open>replaceAtStart\<close>\<close>
  "leadingDash = Seq [Rep isSpace 0 None True, Lit ''-'', Rep isSpace 0 None True]"

definition colonToEnd :: regex where
  \<comment> \<open>\<open>/\s*:.*$/\<close>\<close>
  "colonToEnd = Seq [Rep isSpace 0 None True, Lit '':'', Rep anyChar 0 None True, Eol]"

fun capitalizeWords :: "bool \<Rightarrow> string \<Rightarrow> string" where
  \<comment> \<open>\<open>replace(/\b\w/g, l => l.toUpperCase())\<close>: a word character that follows no word
      character; the flag tells that the character before is a word character\<close>
  "capitalizeWords prevWord [] = []"
| "capitalizeWords prevWord (c # cs) =
     (if isWord c \<and> \<not> prevWord then toUpperCase [c] else [c]) @ capitalizeWords (isWord c) cs"

definition cleanDriverName :: "string \<Rightarrow> string" where
  "cleanDriverName driverName =
     (if driverName = [] then []
      else let cleaned = trim driverName;
               cleaned = replaceAtStart leadingDash '' '' cleaned;
               cleaned = replaceFirst colonToEnd '' '' cleaned;
               cleaned = collapseSpaces False cleaned
           in capitalizeWords False (toLowerCase (collapseSpaces False (trim cleaned))))"

fun includesStr :: "string \<Rightarrow> string \<Rightarrow> bool" where
  \<comment> \<open>\<open>s.includes(sub)\<close>\<close>
  "includesStr [] sub = (sub = [])"
| "includesStr (c # cs) sub = (prefix sub (c # cs) \<or> includesStr cs sub)"

definition patternConfidence :: "rat list" where
  "patternConfidence = [9 / 10, 85 / 100, 8 / 10, 9 / 10, 75 / 100, 7 / 10]"

definition keyWords :: "string list" where
  "keyWords = [''transferir'', ''entrego'', ''paso'', ''recibe'']"

definition calculateConfidence :: "string \<Rightarrow> nat \<Rightarrow> rat" where
  \<comment> \<open>the numbers of the source are binary floating point; the model computes with rationals\<close>
  "calculateConfidence matchText patternIndex =
     (let confidence = (if patternIndex < length patternConfidence
                        then patternConfidence ! patternIndex else 7 / 10);
          keyWordCount = length (filter (\<lambda>word. includesStr (toLowerCase matchText) word) keyWords)
      in min (confidence + of_nat keyWordCount * (5 / 100)) 1)"

subsection \<open>Pattern extraction\<close>

record transfer =
  vehicleId :: string
  fromDriver :: "string option"
  toDriver :: string
  patternUsed :: nat
  confidence :: rat

definition interpretGroups :: "nat \<Rightarrow> rmatch \<Rightarrow> string \<times> string \<times> string" where
  \<comment> \<open>the \<open>switch (patternIndex)\<close>: vehicleId, fromDriver and toDriver; a variable left
      \<open>undefined\<close> is the empty string here, falsy like it\<close>
  "interpretGroups patternIndex m =
     (if patternIndex = 0 \<or> patternIndex = 1 \<or> patternIndex = 3 \<or> patternIndex = 5
      then (cleanVehicleId (capture m 1), [], cleanDriverName (capture m 2))
      else if patternIndex = 2
      then (cleanVehicleId (capture m 2), [], cleanDriverName (capture m 1))
      else if patternIndex = 4
      then (cleanVehicleId (capture m 2), cleanDriverName (capture m 1), cleanDriverName (capture m 3))
      else ([], [], []))"

definition fromMatch :: "nat \<Rightarrow> rmatch \<Rightarrow> transfer list" where
  \<comment> \<open>the body of the \<open>while\<close> loop: the candidate pushed for one match, if any\<close>
  "fromMatch patternIndex m = (case interpretGroups patternIndex m of
       (v, f, t) \<Rightarrow>
         if v \<noteq> [] \<and> t \<noteq> []
         then [\<lparr> vehicleId = v, fromDriver = (if f = [] then None else Some f), toDriver = t,
                 patternUsed = patternIndex,
                 confidence = calculateConfidence (m_text m) patternIndex \<rparr>]
         else [])"

fun findWith :: "regex list \<Rightarrow> nat \<Rightarrow> string \<Rightarrow> transfer list option" where
  \<comment> \<open>\<open>transferPatterns.forEach((pattern, patternIndex) => \<dots>)\<close>, from \<open>patternIndex\<close> on\<close>
  "findWith [] patternIndex text = Some []"
| "findWith (pattern # ps) patternIndex text =
     (case execAll True pattern 0 0 text of
        None \<Rightarrow> None
      | Some ms \<Rightarrow> map_option ((@) (concat (map (fromMatch patternIndex) ms)))
                    (findWith ps (Suc patternIndex) text))"

definition findTransferPatterns :: "string \<Rightarrow> transfer list option" where
  \<comment> \<open>\<open>None\<close>: a loop over the matches of a pattern that never ends\<close>
  "findTransferPatterns text = findWith transferPatterns 0 text"

subsection \<open>Temporal extraction\<close>

fun splitOn :: "char \<Rightarrow> string \<Rightarrow> string list" where
  \<comment> \<open>\<open>s.split(d)\<close> for a separator of one character\<close>
  "splitOn d [] = [[]]"
| "splitOn d (c # cs) =
     (if c = d then [] # splitOn d cs
      else (case splitOn d cs of [] \<Rightarrow> [[c]] | x # xs \<Rightarrow> (c # x) # xs))"

definition convertDate :: "string \<Rightarrow> js_error + string" where
  \<comment> \<open>the rewriting of \<open>dateStr\<close>; reading \<open>length\<close> of a part that is not there throws\<close>
  "convertDate dateStr =
     (if CHR ''/'' \<in> set dateStr
      then (let dateParts = splitOn CHR ''/'' dateStr
            in if length dateParts < 3 then Inl TypeError
               else let year = (if length (dateParts ! 2) = 2 then ''20'' @ dateParts ! 2
                                else dateParts ! 2)
                    in Inr (year @ ''-'' @ padStart 2 CHR ''0'' (dateParts ! 1) @ ''-'' @
                            padStart 2 CHR ''0'' (dateParts ! 0)))
      else Inr dateStr)"

definition parseMatch :: "host \<Rightarrow> rmatch \<Rightarrow> js_error + jsdate option" where
  \<comment> \<open>the \<open>try\<close> block of \<open>extractDateTime\<close>: \<open>Inr\<close> is what it returns, \<open>None\<close> for null\<close>
  "parseMatch h m =
     (case convertDate (capture m 1) of
        Inl e \<Rightarrow> Inl e
      | Inr dateStr \<Rightarrow>
          (let timeStr = capture m 2;
               timeStr = (if length (splitOn CHR '':'' timeStr) = 3 then take 5 timeStr else timeStr);
               dateTime = dateParse h (dateStr @ ''T'' @ timeStr @ '':00'')
           in Inr (case dateTime of InvalidDate \<Rightarrow> None | Time t \<Rightarrow> Some (Time t))))"

fun extractWith :: "host \<Rightarrow> regex list \<Rightarrow> string \<Rightarrow> jsdate option" where
  \<comment> \<open>\<open>for (const pattern of this.dateTimePatterns)\<close>: a match whose \<open>try\<close> block returns
      ends the loop; one whose block throws is logged, and the loop goes on\<close>
  "extractWith h [] text = None"
| "extractWith h (pattern # ps) text =
     (case exec False pattern text of
        None \<Rightarrow> extractWith h ps text
      | Some m \<Rightarrow> (case parseMatch h m of
           Inr result \<Rightarrow> result
         | Inl error \<Rightarrow> extractWith h ps text))"

definition extractDateTime :: "host \<Rightarrow> string \<Rightarrow> jsdate option" where
  "extractDateTime h text = extractWith h dateTimePatterns text"

subsection \<open>Deduplication and the whole chat\<close>

record parsedTransfer = transfer +
  dateTime :: "jsdate option"
  originalText :: string
  lineNumber :: nat

definition timeOrNoDate :: "jsdate option \<Rightarrow> string" where
  \<comment> \<open>\<open>transfer.dateTime?.getTime() || 'no-date'\<close> in the template: null, NaN and 0 are
      falsy\<close>
  "timeOrNoDate d = (case d of
       None \<Rightarrow> ''no-date''
     | Some InvalidDate \<Rightarrow> ''no-date''
     | Some (Time t) \<Rightarrow> if t = 0 then ''no-date'' else intToString t)"

definition dedupKey :: "'a parsedTransfer_scheme \<Rightarrow> string" where
  "dedupKey t = vehicleId t @ ''-'' @ toDriver t @ ''-'' @ timeOrNoDate (dateTime t)"

fun dedupFilter :: "string set \<Rightarrow> 'a parsedTransfer_scheme list \<Rightarrow> 'a parsedTransfer_scheme list" where
  \<comment> \<open>the \<open>filter\<close> callback with its \<open>seen\<close> set\<close>
  "dedupFilter seen [] = []"
| "dedupFilter seen (t # ts) =
     (if dedupKey t \<in> seen then dedupFilter seen ts
      else t # dedupFilter (insert (dedupKey t) seen) ts)"

definition deduplicateTransfers :: "'a parsedTransfer_scheme list \<Rightarrow> 'a parsedTransfer_scheme list" where
  "deduplicateTransfers ts = dedupFilter {} ts"

definition withLine :: "jsdate option \<Rightarrow> string \<Rightarrow> nat \<Rightarrow> transfer \<Rightarrow> parsedTransfer" where
  \<comment> \<open>\<open>{...transfer, dateTime, originalText: line, lineNumber: i + 1}\<close>\<close>
  "withLine d line n t = transfer.extend t
     \<lparr> dateTime = d, originalText = line, lineNumber = n \<rparr>"

fun parseLines :: "host \<Rightarrow> nat \<Rightarrow> string list \<Rightarrow> parsedTransfer list option" where
  "parseLines h i [] = Some []"
| "parseLines h i (l # ls) =
     (let line = trim l
      in if line = [] then parseLines h (Suc i) ls
         else case findTransferPatterns line of
             None \<Rightarrow> None
           | Some found \<Rightarrow>
               map_option ((@) (map (withLine (extractDateTime h line) line (Suc i)) found))
                 (parseLines h (Suc i) ls))"

definition parseChat :: "host \<Rightarrow> string \<Rightarrow> parsedTransfer list option" where
  "parseChat h content =
     (if content = [] then Some []
      else map_option deduplicateTransfers (parseLines h 0 (splitOn (CHR 0x0A) content)))"

section \<open>Reconciliation against the registry\<close>

record vehicle =
  v_id :: "string option"
  v_plate :: string

record driver =
  d_id :: "string option"
  d_name :: string

record suggestions =
  s_vehicle :: "vehicle list option"
  s_fromDriver :: "driver list option"
  s_toDriver :: "driver list option"

record enrichedTransfer = parsedTransfer +
  vehicleMatch :: "vehicle option"
  fromDriverMatch :: "driver option"
  toDriverMatch :: "driver option"
  isValid :: bool
  suggestions :: suggestions

definition firstWord :: "string \<Rightarrow> string" where
  \<comment> \<open>\<open>s.split(' ')[0]\<close>\<close>
  "firstWord s = takeWhile (\<lambda>c. c \<noteq> CHR '' '') s"

definition findVehicleByIdentifier :: "vehicle list \<Rightarrow> string \<Rightarrow> vehicle option" where
  "findVehicleByIdentifier vehicles identifier =
     (if identifier = [] then None
      else let cleanId = filter (\<lambda>c. \<not> isSpace c) (toLowerCase identifier)
           in find (\<lambda>vehicle.
                  filter (\<lambda>c. \<not> isSpace c) (toLowerCase (v_plate vehicle)) = cleanId \<or>
                  filter (\<lambda>c. c \<noteq> CHR ''-'' \<and> \<not> isSpace c) (toLowerCase (v_plate vehicle)) =
                    filter (\<lambda>c. c \<noteq> CHR ''-'') cleanId) vehicles)"

definition findDriverByName :: "driver list \<Rightarrow> string \<Rightarrow> driver option" where
  "findDriverByName drivers name =
     (if name = [] then None
      else let cleanName = trim (toLowerCase name)
           in find (\<lambda>driver.
                  includesStr (toLowerCase (d_name driver)) cleanName \<or>
                  includesStr cleanName (firstWord (toLowerCase (d_name driver)))) drivers)"

definition getSimilarVehicles :: "vehicle list \<Rightarrow> string \<Rightarrow> vehicle list" where
  "getSimilarVehicles vehicles identifier =
     (if identifier = [] then []
      else let cleanId = toLowerCase identifier
           in take 3 (filter (\<lambda>vehicle.
                  includesStr (toLowerCase (v_plate vehicle)) (take 3 cleanId) \<or>
                  includesStr cleanId (take 3 (toLowerCase (v_plate vehicle)))) vehicles))"

definition getSimilarDrivers :: "driver list \<Rightarrow> string option \<Rightarrow> driver list" where
  "getSimilarDrivers drivers name = (case name of
       None \<Rightarrow> []
     | Some n \<Rightarrow>
         if n = [] then []
         else let cleanName = toLowerCase n
              in take 3 (filter (\<lambda>driver.
                     let driverName = toLowerCase (d_name driver)
                     in includesStr driverName (firstWord cleanName) \<or>
                        includesStr cleanName (firstWord driverName)) drivers))"

definition enrichTransfer :: "vehicle list \<Rightarrow> driver list \<Rightarrow> parsedTransfer \<Rightarrow> enrichedTransfer" where
  "enrichTransfer vehicles drivers transfer =
     (let vehicle = findVehicleByIdentifier vehicles (vehicleId transfer);
          fromD = (case fromDriver transfer of
                     None \<Rightarrow> None
                   | Some n \<Rightarrow> findDriverByName drivers n);
          toD = findDriverByName drivers (toDriver transfer)
      in parsedTransfer.extend transfer
           \<lparr> vehicleMatch = vehicle,
             fromDriverMatch = fromD,
             toDriverMatch = toD,
             isValid = (vehicle \<noteq> None \<and> toD \<noteq> None),
             suggestions = \<lparr>
               s_vehicle = (if vehicle \<noteq> None then None
                            else Some (getSimilarVehicles vehicles (vehicleId transfer))),
               s_fromDriver = (if fromD \<noteq> None then None
                               else Some (getSimilarDrivers drivers (fromDriver transfer))),
               s_toDriver = (if toD \<noteq> None then None
                             else Some (getSimilarDrivers drivers (Some (toDriver transfer)))) \<rparr> \<rparr>)"

definition enrichTransfers :: "vehicle list \<Rightarrow> driver list \<Rightarrow> parsedTransfer list \<Rightarrow> enrichedTransfer list" where
  "enrichTransfers vehicles drivers transfers' = map (enrichTransfer vehicles drivers) transfers'"

definition onUpdateTransfer :: "enrichedTransfer list \<Rightarrow> nat \<Rightarrow> enrichedTransfer \<Rightarrow> enrichedTransfer list" where
  \<comment> \<open>\<open>updated[index] = updatedTransfer\<close> on a copy of the list; the index is that of a row of
      the preview, below the length of the list\<close>
  "onUpdateTransfer parsedTransfers index updatedTransfer = parsedTransfers[index := updatedTransfer]"

definition handleManualMatch ::
  "vehicle list \<Rightarrow> driver list \<Rightarrow> enrichedTransfer list \<Rightarrow> nat \<Rightarrow> string \<Rightarrow> string \<Rightarrow> enrichedTransfer list" where
  "handleManualMatch vehicles drivers transfers' transferIndex type selectedId =
     (let transfer = transfers' ! transferIndex;
          updatedTransfer =
            (if type = ''vehicle''
             then transfer\<lparr> vehicleMatch := find (\<lambda>v. v_id v = Some selectedId) vehicles \<rparr>
             else if type = ''fromDriver''
             then transfer\<lparr> fromDriverMatch := find (\<lambda>d. d_id d = Some selectedId) drivers \<rparr>
             else if type = ''toDriver''
             then transfer\<lparr> toDriverMatch := find (\<lambda>d. d_id d = Some selectedId) drivers \<rparr>
             else transfer);
          updatedTransfer = updatedTransfer\<lparr> isValid :=
            (vehicleMatch updatedTransfer \<noteq> None \<and> toDriverMatch updatedTransfer \<noteq> None) \<rparr>
      in onUpdateTransfer transfers' transferIndex updatedTransfer)"

record override =
  o_index :: nat
  o_type :: string
  o_selectedId :: string

definition applyOverride ::
  "vehicle list \<Rightarrow> driver list \<Rightarrow> enrichedTransfer list \<Rightarrow> override \<Rightarrow> enrichedTransfer list" where
  "applyOverride vehicles drivers transfers' ov =
     handleManualMatch vehicles drivers transfers' (o_index ov) (o_type ov) (o_selectedId ov)"

definition validityHolds :: "enrichedTransfer \<Rightarrow> bool" where
  \<comment> \<open>the invariant of a reconciled transfer\<close>
  "validityHolds t = (isValid t = (vehicleMatch t \<noteq> None \<and> toDriverMatch t \<noteq> None))"

section \<open>AlertService\<close>

text \<open>
  The collaborators of the alert service are a state that every operation takes and returns:
  the three Firestore collections as lists of documents with their ids, the e-mails the
  EmailJS endpoint has accepted, the configuration of EmailJS and the answer of its endpoint
  to a request. A Firestore call throws when \<open>firestoreUp\<close> is false. One value of \<open>host\<close>
  stands for the clock during one call of a public method.
\<close>

record processingRecord =
  pr_date :: string
  pr_timestamp :: int
  pr_transfersProcessed :: int
  pr_filesProcessed :: "string list"
  pr_source :: string
  pr_hash :: string

record alertRecord =
  a_date :: string
  a_type :: string
  a_sentAt :: int
  a_recipient :: string

record emailData =
  e_type :: string
  e_recipient :: string
  e_subject :: string
  e_date :: string
  e_currentDate :: string

record emailjsConfig =
  serviceId :: string
  templateId :: string
  userId :: string

record pendingEmail =
  p_email :: emailData
  p_status :: string
  p_error :: "string option"
  p_createdAt :: int
  p_attempts :: int

record emailResult =
  r_success :: bool
  r_messageId :: "string option"
  r_error :: "string option"

record world =
  daily_processing :: "(string \<times> processingRecord) list"
  sent_alerts :: "(string \<times> alertRecord) list"
  pending_emails :: "(string \<times> pendingEmail) list"
  outbox :: "emailData list"
  firestoreUp :: bool
  emailConfig :: emailjsConfig
  emailjs :: "emailData \<Rightarrow> js_error + string"

record dailyProcessingCheck =
  processed :: bool
  lastProcessing :: "processingRecord option"
  shouldAlert :: bool
  error :: "string option"

definition DAILY_PROCESSING :: string where
  "DAILY_PROCESSING = ''daily_processing''"

definition DEFAULT_ALERT_HOUR :: int where
  "DEFAULT_ALERT_HOUR = 18"

definition ALERT_DAYS :: "int list" where
  "ALERT_DAYS = [1, 2, 3, 4, 5, 6]"

definition ADMIN_EMAIL :: string where
  "ADMIN_EMAIL = ''dylan01aponte@gmail.com''"

definition SENDING_ALERT :: string where
  "SENDING_ALERT = ''Error enviando alerta''"

definition messageOf :: "js_error \<Rightarrow> string" where
  \<comment> \<open>\<open>error.message\<close>; the text of a built-in error is not modelled\<close>
  "messageOf e = (case e of Error msg \<Rightarrow> msg | _ \<Rightarrow> [])"

definition validateDate :: "jsdate \<Rightarrow> js_error + int" where
  \<comment> \<open>throws unless the value is a \<open>Date\<close> with a time value; \<open>Inr\<close> is that time value\<close>
  "validateDate date = (case date of
       InvalidDate \<Rightarrow> Inl (Error ''Invalid date provided'')
     | Time t \<Rightarrow> Inr t)"

definition formatDateString :: "int \<Rightarrow> string" where
  \<comment> \<open>\<open>date.toISOString().split('T')[0]\<close>\<close>
  "formatDateString t = takeWhile (\<lambda>c. c \<noteq> CHR ''T'') (isoDate t @ ''T'' @ isoTime t)"

definition getDay :: "host \<Rightarrow> int \<Rightarrow> int" where
  \<comment> \<open>the day of the week in local time, 0 for Sunday; the epoch was a Thursday\<close>
  "getDay h t = ((t + localTZA h t) div msPerDay + 4) mod 7"

definition getHours :: "host \<Rightarrow> int \<Rightarrow> int" where
  "getHours h t = (t + localTZA h t) mod msPerDay div 3600000"

definition shouldSendAlert :: "host \<Rightarrow> int \<Rightarrow> bool" where
  "shouldSendAlert h date =
     (let today = now h;
          diffTime = today - date;
          diffDays = \<lceil>(of_int diffTime :: rat) / of_int msPerDay\<rceil>;
          dayOfWeek = getDay h date;
          isWorkDay = (dayOfWeek \<in> set ALERT_DAYS)
      in isWorkDay \<and> diffDays \<ge> 1)"

definition shouldCheckToday :: "host \<Rightarrow> int \<Rightarrow> bool" where
  "shouldCheckToday h today =
     (let currentHour = getHours h today;
          dayOfWeek = getDay h today;
          isWorkDay = (dayOfWeek \<in> set ALERT_DAYS)
      in isWorkDay \<and> currentHour \<ge> DEFAULT_ALERT_HOUR)"

definition latestProcessing :: "world \<Rightarrow> string \<Rightarrow> js_error + processingRecord option" where
  \<comment> \<open>the query \<open>where('date', '==', dateStr), orderBy('timestamp', 'desc'), limit(1)\<close>\<close>
  "latestProcessing w dateStr =
     (if \<not> firestoreUp w then Inl (Error ''unavailable'')
      else case filter (\<lambda>r. pr_date r = dateStr) (map snd (daily_processing w)) of
          [] \<Rightarrow> Inr None
        | r # rs \<Rightarrow> Inr (Some (foldl (\<lambda>best x. if pr_timestamp x > pr_timestamp best then x else best) r rs)))"

definition checkDailyProcessing :: "host \<Rightarrow> world \<Rightarrow> jsdate \<Rightarrow> dailyProcessingCheck" where
  "checkDailyProcessing h w date =
     (case (case validateDate date of
              Inl e \<Rightarrow> Inl e
            | Inr t \<Rightarrow> (case latestProcessing w (formatDateString t) of
                 Inl e \<Rightarrow> Inl e
               | Inr None \<Rightarrow> Inr \<lparr> processed = False, lastProcessing = None,
                                    shouldAlert = shouldSendAlert h t, error = None \<rparr>
               | Inr (Some lastP) \<Rightarrow> Inr \<lparr> processed = True, lastProcessing = Some lastP,
                                           shouldAlert = False, error = None \<rparr>)) of
        Inr result \<Rightarrow> result
      | Inl e \<Rightarrow> \<lparr> processed = False, lastProcessing = None, shouldAlert = True,
                    error = Some (messageOf e) \<rparr>)"

definition isDailyAlertFor :: "string \<Rightarrow> alertRecord \<Rightarrow> bool" where
  \<comment> \<open>\<open>where('date', '==', dateStr), where('type', '==', ALERT_TYPES.DAILY_PROCESSING)\<close>\<close>
  "isDailyAlertFor dateStr r = (a_date r = dateStr \<and> a_type r = DAILY_PROCESSING)"

definition checkAlertSent :: "world \<Rightarrow> string \<Rightarrow> bool" where
  \<comment> \<open>an error of the query is logged and taken as: not sent\<close>
  "checkAlertSent w dateStr =
     (if \<not> firestoreUp w then False
      else filter (isDailyAlertFor dateStr) (map snd (sent_alerts w)) \<noteq> [])"

fun setDoc :: "string \<Rightarrow> 'a \<Rightarrow> (string \<times> 'a) list \<Rightarrow> (string \<times> 'a) list" where
  \<comment> \<open>writes the document with this id, replacing it if it is there\<close>
  "setDoc docId v [] = [(docId, v)]"
| "setDoc docId v ((k, x) # ds) = (if k = docId then (k, v) # ds else (k, x) # setDoc docId v ds)"

definition recordAlertSent :: "host \<Rightarrow> world \<Rightarrow> string \<Rightarrow> world" where
  \<comment> \<open>an error of the write is logged and not thrown\<close>
  "recordAlertSent h w dateStr =
     (if \<not> firestoreUp w then w
      else let alertRecord = \<lparr> a_date = dateStr, a_type = DAILY_PROCESSING, a_sentAt = now h,
                                a_recipient = ADMIN_EMAIL \<rparr>
           in w\<lparr> sent_alerts := setDoc (''daily_'' @ dateStr) alertRecord (sent_alerts w) \<rparr>)"

definition buildAlertEmailData :: "host \<Rightarrow> int \<Rightarrow> emailData" where
  \<comment> \<open>the subject without its leading pictograph, which is outside Latin-1\<close>
  "buildAlertEmailData h date =
     (let dateStr = formatDateString date;
          today = formatDateString (now h)
      in \<lparr> e_type = DAILY_PROCESSING, e_recipient = ADMIN_EMAIL,
           e_subject = ''ALERTA: Procesamiento diario pendiente - '' @ dateStr,
           e_date = dateStr, e_currentDate = today \<rparr>)"

definition ALERT_TYPES :: "string list" where
  "ALERT_TYPES = [DAILY_PROCESSING, ''change_detected'', ''system_error'']"

definition notSpaceOrAt :: "char \<Rightarrow> bool" where
  \<comment> \<open>\<open>[^\s@]\<close>\<close>
  "notSpaceOrAt c = (\<not> isSpace c \<and> c \<noteq> CHR ''@'')"

definition emailRegex :: regex where
  \<comment> \<open>\<open>/^[^\s@]+@[^\s@]+\.[^\s@]+$/\<close> without its \<open>^\<close>: \<open>validateEmailData\<close> matches it at the
      start of the string only\<close>
  "emailRegex = Seq [Rep notSpaceOrAt 1 None True, Lit ''@'', Rep notSpaceOrAt 1 None True,
                     Lit ''.'', Rep notSpaceOrAt 1 None True, Eol]"

definition validateConfiguration :: "emailjsConfig \<Rightarrow> bool" where
  \<comment> \<open>\<open>isConfigured\<close>, computed once from a configuration that does not change\<close>
  "validateConfiguration config =
     list_all (\<lambda>v. v \<noteq> [] \<and> trim v \<noteq> [] \<and> \<not> prefix ''your_'' v)
       [serviceId config, templateId config, userId config]"

definition validateEmailData :: "emailData \<Rightarrow> js_error + unit" where
  "validateEmailData emailData =
     (if e_type emailData = [] then Inl (Error ''Missing or invalid field: type'')
      else if e_recipient emailData = [] then Inl (Error ''Missing or invalid field: recipient'')
      else if e_subject emailData = [] then Inl (Error ''Missing or invalid field: subject'')
      else if matchAt False emailRegex (e_recipient emailData) = None
      then Inl (Error ''Invalid recipient email address'')
      else if e_type emailData \<notin> set ALERT_TYPES then Inl (Error ''Invalid alert type'')
      else Inr ())"

definition saveForManualSending :: "host \<Rightarrow> world \<Rightarrow> emailData \<Rightarrow> string option \<Rightarrow> world" where
  \<comment> \<open>an error of the write is logged and not thrown; the \<open>metadata\<close> the browser gives are
      left out of the record\<close>
  "saveForManualSending h w emailData err =
     (if \<not> firestoreUp w then w
      else let emailRecord = \<lparr> p_email = emailData, p_status = ''pending'', p_error = err,
                                p_createdAt = now h, p_attempts = 0 \<rparr>;
               docId = ''email_'' @ intToString (now h) @ ''_'' @ take 9 (drop 2 (random36 h))
           in w\<lparr> pending_emails := setDoc docId emailRecord (pending_emails w) \<rparr>)"

definition sendViaEmailJS :: "world \<Rightarrow> emailData \<Rightarrow> js_error + string \<times> world" where
  \<comment> \<open>the request to the endpoint of EmailJS, which throws when the request fails or the
      answer is not \<open>ok\<close>; \<open>Inr\<close> holds the \<open>text\<close> of the answer. The message built from the
      template is not modelled: the e-mail it is built from stands for the request.\<close>
  "sendViaEmailJS w emailData =
     (case emailjs w emailData of
        Inl e \<Rightarrow> Inl e
      | Inr text \<Rightarrow> Inr (text, w\<lparr> outbox := outbox w @ [emailData] \<rparr>))"

definition sendAlert :: "host \<Rightarrow> world \<Rightarrow> emailData \<Rightarrow> emailResult \<times> world" where
  \<comment> \<open>\<open>emailService.sendAlert\<close>: every error of the \<open>try\<close> block is caught, the e-mail is saved
      for manual sending and the result says \<open>success: false\<close>; the method never throws\<close>
  "sendAlert h w emailData =
     (case (case validateEmailData emailData of
              Inl e \<Rightarrow> Inl e
            | Inr u \<Rightarrow>
                if \<not> validateConfiguration (emailConfig w)
                then Inr (\<lparr> r_success = False, r_messageId = None,
                            r_error = Some ''EmailJS not configured - saved for manual sending'' \<rparr>,
                          saveForManualSending h w emailData None)
                else (case sendViaEmailJS w emailData of
                        Inl e \<Rightarrow> Inl e
                      | Inr (text, w1) \<Rightarrow>
                          Inr (\<lparr> r_success = True,
                                 r_messageId = Some (if text = [] then ''sent'' else text),
                                 r_error = None \<rparr>, w1))) of
        Inr result \<Rightarrow> result
      | Inl e \<Rightarrow> (\<lparr> r_success = False, r_messageId = None, r_error = Some (messageOf e) \<rparr>,
                   saveForManualSending h w emailData (Some (messageOf e))))"

definition sendingFailed :: "js_error \<Rightarrow> js_error" where
  \<comment> \<open>the error thrown by the \<open>catch\<close> block of \<open>sendDailyAlert\<close>\<close>
  "sendingFailed e = Error (SENDING_ALERT @ '': '' @ messageOf e)"

definition sendDailyAlert :: "host \<Rightarrow> world \<Rightarrow> jsdate \<Rightarrow> (js_error + bool) \<times> world" where
  \<comment> \<open>the result (\<open>Inl\<close>: the error thrown) and the state left behind; the result of
      \<open>sendAlert\<close> is not looked at\<close>
  "sendDailyAlert h w date =
     (case validateDate date of
        Inl e \<Rightarrow> (Inl (sendingFailed e), w)
      | Inr t \<Rightarrow>
          (let dateStr = formatDateString t;
               alertSent = checkAlertSent w dateStr
           in if alertSent then (Inr False, w)
              else (let emailData = buildAlertEmailData h t;
                        w1 = snd (sendAlert h w emailData)
                    in (Inr True, recordAlertSent h w1 dateStr))))"

definition checkAndSendForDate :: "host \<Rightarrow> world \<Rightarrow> jsdate \<Rightarrow> (js_error + bool) \<times> world" where
  "checkAndSendForDate h w date =
     (let processing = checkDailyProcessing h w date
      in if \<not> processed processing \<and> shouldAlert processing then sendDailyAlert h w date
         else (Inr False, w))"

definition dailyAlertsFor :: "world \<Rightarrow> string \<Rightarrow> alertRecord list" where
  \<comment> \<open>the records of the collection \<open>sent_alerts\<close> for a date and the daily alert type\<close>
  "dailyAlertsFor w dateStr = filter (isDailyAlertFor dateStr) (map snd (sent_alerts w))"

definition localDay :: "host \<Rightarrow> int \<Rightarrow> int" where
  \<comment> \<open>the number of the calendar day, in local time, a time value falls on\<close>
  "localDay h t = (t + localTZA h t) div msPerDay"

section \<open>The normal form of a vehicle token\<close>

text \<open>
  A second description of the result of \<open>cleanVehicleId\<close>, on the words of the token and
  independent of the steps of its code: the token is upper-cased, each of its words loses the
  characters outside \<open>[A-Z0-9-]\<close>, and the words are joined by single blanks.
\<close>

definition plateChar :: "char \<Rightarrow> bool" where
  \<comment> \<open>the class \<open>[A-Z0-9-]\<close>\<close>
  "plateChar c = (isUpperAZ c \<or> isDigit c \<or> c = CHR ''-'')"

function wordsOf :: "string \<Rightarrow> string list" where
  \<comment> \<open>the pieces of a string between its runs of white space, as \<open>s.split(/\s+/)\<close> gives them\<close>
  "wordsOf s =
     (if dropWhile (\<lambda>c. \<not> isSpace c) s = [] then [s]
      else takeWhile (\<lambda>c. \<not> isSpace c) s #
           wordsOf (dropWhile isSpace (dropWhile (\<lambda>c. \<not> isSpace c) s)))"
  by pat_completeness auto
termination
proof (relation "measure length")
  show "wf (measure length)"
    by simp
next
  fix s :: string
  let ?r = "dropWhile (\<lambda>c. \<not> isSpace c) s"
  assume "?r \<noteq> []"
  then obtain c r where r: "?r = c # r"
    by (cases ?r) simp_all
  with hd_dropWhile [of "\<lambda>c. \<not> isSpace c" s] have "isSpace c"
    by simp
  with r have "length (dropWhile isSpace ?r) \<le> length r"
    by (simp add: length_dropWhile_le)
  also from r have "\<dots> < length ?r"
    by simp
  also have "\<dots> \<le> length s"
    by (rule length_dropWhile_le)
  finally show "(dropWhile isSpace ?r, s) \<in> measure length"
    by simp
qed

declare wordsOf.simps [simp del]

definition plateNormalForm :: "string \<Rightarrow> string" where
  \<comment> \<open>the upper-cased words with the characters outside \<open>[A-Z0-9-]\<close> removed, joined by single
      blanks, without blanks at the ends\<close>
  "plateNormalForm s =
     trim (intercalate '' '' (map (filter plateChar) (wordsOf (toUpperCase (trim s)))))"

section \<open>A host and inputs for the examples\<close>

text \<open>
  A host in the UTC time zone whose collation compares code units and whose \<open>Date\<close>
  constructor reads the date-time format \<open>YYYY-MM-DDTHH:mm:ss\<close> of ECMAScript as local time,
  and gives an invalid date for a string in that format with a field out of range.
\<close>

definition codeUnitCompare :: "string \<Rightarrow> string \<Rightarrow> int" where
  "codeUnitCompare a b = (if a < b then -1 else if a = b then 0 else 1)"

definition marchYear :: "int \<Rightarrow> int \<Rightarrow> int" where
  \<comment> \<open>the year counted from the first of March\<close>
  "marchYear y m = (if m \<le> 2 then y - 1 else y)"

definition marchDay :: "int \<Rightarrow> int \<Rightarrow> int" where
  \<comment> \<open>the day of the year counted from the first of March\<close>
  "marchDay m d = (153 * (if m > 2 then m - 3 else m + 9) + 2) div 5 + d - 1"

definition eraOfYear :: "int \<Rightarrow> int" where
  "eraOfYear y = y div 400"

definition yearInEra :: "int \<Rightarrow> int" where
  "yearInEra y = y - eraOfYear y * 400"

definition daysFromCivil :: "int \<Rightarrow> int \<Rightarrow> int \<Rightarrow> int" where
  \<comment> \<open>the day number of a calendar date\<close>
  "daysFromCivil y m d =
     eraOfYear (marchYear y m) * 146097 +
     (yearInEra (marchYear y m) * 365 + yearInEra (marchYear y m) div 4 -
      yearInEra (marchYear y m) div 100 + marchDay m d) - 719468"

definition daysInMonth :: "int \<Rightarrow> int \<Rightarrow> int" where
  "daysInMonth y m =
     (if m = 2 then (if y mod 4 = 0 \<and> (y mod 100 \<noteq> 0 \<or> y mod 400 = 0) then 29 else 28)
      else if m = 4 \<or> m = 6 \<or> m = 9 \<or> m = 11 then 30 else 31)"

definition digitsValue :: "string \<Rightarrow> int" where
  "digitsValue s = foldl (\<lambda>acc c. 10 * acc + (charCodeAt c - 48)) 0 s"

definition parseIsoUTC :: "string \<Rightarrow> jsdate" where
  "parseIsoUTC s =
     (if length s = 19 \<and> list_all isDigit (take 4 s) \<and> s ! 4 = CHR ''-'' \<and>
         list_all isDigit (take 2 (drop 5 s)) \<and> s ! 7 = CHR ''-'' \<and>
         list_all isDigit (take 2 (drop 8 s)) \<and> s ! 10 = CHR ''T'' \<and>
         list_all isDigit (take 2 (drop 11 s)) \<and> s ! 13 = CHR '':'' \<and>
         list_all isDigit (take 2 (drop 14 s)) \<and> s ! 16 = CHR '':'' \<and>
         list_all isDigit (take 2 (drop 17 s))
      then (let y = digitsValue (take 4 s);
                m = digitsValue (take 2 (drop 5 s));
                d = digitsValue (take 2 (drop 8 s));
                hh = digitsValue (take 2 (drop 11 s));
                mm = digitsValue (take 2 (drop 14 s));
                ss = digitsValue (take 2 (drop 17 s))
            in if 1 \<le> m \<and> m \<le> 12 \<and> 1 \<le> d \<and> d \<le> daysInMonth y m \<and>
                  hh \<le> 23 \<and> mm \<le> 59 \<and> ss \<le> 59
               then Time (daysFromCivil y m d * msPerDay + hh * 3600000 + mm * 60000 + ss * 1000)
               else InvalidDate)
      else InvalidDate)"

definition utcHost :: "int \<Rightarrow> host" where
  \<comment> \<open>the host at a reading of the clock\<close>
  "utcHost t = \<lparr> now = t, random36 = ''0.4fzyo82mvyr'', localeCompare = codeUnitCompare,
                 localTZA = (\<lambda>t. 0), dateParse = parseIsoUTC \<rparr>"

definition transferAt :: "jsdate \<Rightarrow> hashTransfer" where
  \<comment> \<open>vehicle ABC-123 handed to Juan Perez at a time\<close>
  "transferAt d = \<lparr> t_vehicleId = JStr ''ABC-123'', t_toDriver = JStr ''Juan Perez'',
                     t_fromDriver = JFalsy, t_dateTime = DtDate d \<rparr>"

definition batchOf :: "hashTransfer list \<Rightarrow> processingData" where
  "batchOf ts = \<lparr> transfersCount = Some (int (length ts)), transfers = Some ts,
                   filesProcessed = Some [JStr ''chat.txt''], source = JStr ''whatsapp'',
                   department = JFalsy \<rparr>"

definition registryVehicles :: "vehicle list" where
  "registryVehicles = [\<lparr> v_id = Some ''v1'', v_plate = ''ABC-123'' \<rparr>]"

definition registryDrivers :: "driver list" where
  "registryDrivers = [\<lparr> d_id = Some ''d1'', d_name = ''Juan Perez'' \<rparr>,
                      \<lparr> d_id = Some ''d2'', d_name = ''Ana Ruiz'' \<rparr>]"

definition unknownDriverTransfer :: parsedTransfer where
  \<comment> \<open>a candidate whose to-driver token names nobody of the registry\<close>
  "unknownDriverTransfer =
     \<lparr> vehicleId = ''ABC-123'', fromDriver = None, toDriver = ''Pedro'', patternUsed = 0,
       confidence = 19 / 20, dateTime = None, originalText = ''le paso el carro ABC-123 a Pedro'',
       lineNumber = 1 \<rparr>"

definition datedLine :: string where
  "datedLine = ''01/01/1970, 00:00 le paso el carro ABC-123 a Juan Perez''"

definition undatedLine :: string where
  "undatedLine = ''le paso el carro ABC-123 a Juan Perez''"

definition epochChat :: string where
  \<comment> \<open>two messages about the same hand-over, the first with the time stamp of the epoch\<close>
  "epochChat = datedLine @ [CHR 0x0A] @ undatedLine"

definition epochCandidate :: parsedTransfer where
  "epochCandidate =
     \<lparr> vehicleId = ''ABC-123'', fromDriver = None, toDriver = ''Juan Perez'', patternUsed = 0,
       confidence = 19 / 20, dateTime = Some (Time 0), originalText = datedLine, lineNumber = 1 \<rparr>"

definition undatedCandidate :: parsedTransfer where
  "undatedCandidate =
     \<lparr> vehicleId = ''ABC-123'', fromDriver = None, toDriver = ''Juan Perez'', patternUsed = 0,
       confidence = 19 / 20, dateTime = None, originalText = undatedLine, lineNumber = 2 \<rparr>"

definition emptyWorld :: world where
  \<comment> \<open>empty collections, and EmailJS with the placeholders of \<open>emailConfig.js\<close>\<close>
  "emptyWorld = \<lparr> daily_processing = [], sent_alerts = [], pending_emails = [], outbox = [],
                   firestoreUp = True,
                   emailConfig = \<lparr> serviceId = ''your_service_id'', templateId = ''your_template_id'',
                                   userId = ''your_user_id'' \<rparr>,
                   emailjs = (\<lambda>e. Inr ''OK'') \<rparr>"

section \<open>Properties\<close>

subsection \<open>Evaluation on concrete inputs\<close>

text \<open>
  Rules that let the simplifier run the definitions on literals.
\<close>

lemma replicate_numeral_eval: "replicate (numeral k) x = x # replicate (pred_numeral k) x"
  by (simp add: numeral_eq_Suc)

lemma natToString_numeral:
  "natToString r (numeral k) =
     (if r < 2 \<or> numeral k < r then [digitChar (numeral k)]
      else natToString r (numeral k div r) @ [digitChar (numeral k mod r)])"
  by (rule natToString.simps)

lemma natToString_0: "natToString r 0 = [digitChar 0]"
  by (subst natToString.simps) auto

lemma natToString_1: "natToString r (Suc 0) = [digitChar (Suc 0)]"
  by (subst natToString.simps) auto

lemmas num_evals = natToString_numeral natToString_0 natToString_1 digitChar_def intToString_def
  padStart_def pad2_def replicate_numeral_eval

lemmas cal_defs = eraOf_def dayOfEra_def yearOfEra_def dayOfYear_def monthIndex_def dayOfMonth_def
  monthOf_def yearOf_def civilFromDays_def msPerDay_def marchYear_def marchDay_def eraOfYear_def
  yearInEra_def daysFromCivil_def daysInMonth_def

lemmas date_defs = toISOString_def isoDate_def isoTime_def isoYear_def cal_defs

lemmas char_defs = isSpace_def isDigit_def isUpperAZ_def isLowerAZ_def isWord_def
  lowerChar_def canonChar_def upperChar_def plateClass_def nameClass_def anyChar_def isChar_def
  char_of_def bit_0

lemmas string_defs = trim_def toLowerCase_def toUpperCase_def char_defs

lemmas calc_defs = calculateHash_def calculateChecksum_def hashStep_def toInt32_def charCodeAt_def

lemmas ser_defs = serializeData_def dataJson_def transferJson_def quoteJSON_def quoteChar_def
  less_eq_char_def

lemmas re_defs = litMatches_def classMatches_def repCounts_def matchAt_def upt_rec

lemmas pat_defs = passTo_def seLoPaso_def recibe_def transferir_def dejaToma_def carroPara_def
  slashDate_def longYearLayout_def shortYearLayout_def bracketLayout_def space_def optEl_def
  vehicleWord_def plateGroup_def nameGroup_def digits_def leadingDash_def colonToEnd_def

subsection \<open>Digests are well formed\<close>

lemma digitChar_hex: "d < 16 \<Longrightarrow> isHexChar (digitChar d)"
proof -
  assume "d < 16"
  then have "d = 0 \<or> d = 1 \<or> d = 2 \<or> d = 3 \<or> d = 4 \<or> d = 5 \<or> d = 6 \<or> d = 7 \<or>
      d = 8 \<or> d = 9 \<or> d = 10 \<or> d = 11 \<or> d = 12 \<or> d = 13 \<or> d = 14 \<or> d = 15"
    by arith
  then show ?thesis
    by (elim disjE) (simp_all add: digitChar_def isHexChar_def isDigit_def)
qed

lemma natToString16_hex: "list_all isHexChar (natToString 16 n)"
proof (induction n rule: less_induct)
  case (less n)
  show ?case
  proof (cases "n < 16")
    case True
    then show ?thesis by (simp add: natToString.simps [of 16 n] digitChar_hex)
  next
    case False
    then have "n div 16 < n" by simp
    from less [OF this] False show ?thesis
      by (simp add: natToString.simps [of 16 n] digitChar_hex)
  qed
qed

lemma natToString16_length: "0 < k \<Longrightarrow> n < 16 ^ k \<Longrightarrow> length (natToString 16 n) \<le> k"
proof (induction k arbitrary: n)
  case 0
  then show ?case by simp
next
  case (Suc k)
  show ?case
  proof (cases "n < 16")
    case True
    then show ?thesis by (simp add: natToString.simps [of 16 n])
  next
    case False
    then have k: "0 < k" using Suc.prems by (cases k) auto
    have "n div 16 < 16 ^ k" using Suc.prems by (simp add: less_mult_imp_div_less mult.commute)
    from Suc.IH [OF k this] False show ?thesis
      by (simp add: natToString.simps [of 16 n])
  qed
qed

lemma natToString_nonempty: "natToString r n \<noteq> []"
  by (subst natToString.simps) simp

lemma padStart_length: "length s \<le> n \<Longrightarrow> length (padStart n c s) = n"
  by (simp add: padStart_def)

lemma padStart_hex: "isHexChar c \<Longrightarrow> list_all isHexChar s \<Longrightarrow> list_all isHexChar (padStart n c s)"
  by (auto simp: padStart_def list_all_iff)

lemma isHexChar_zero: "isHexChar CHR ''0''"
  by (simp add: isHexChar_def isDigit_def)

lemma toInt32_range: "- (2 ^ 31) \<le> toInt32 x \<and> toInt32 x < 2 ^ 31"
proof -
  have "0 \<le> (x + 2 ^ 31) mod 2 ^ 32" "(x + 2 ^ 31) mod 2 ^ 32 < (2 ^ 32 :: int)"
    by simp_all
  then show ?thesis unfolding toInt32_def by simp
qed

lemma hashLoop_range:
  "- (2 ^ 31) \<le> h \<and> h < 2 ^ 31 \<Longrightarrow>
   - (2 ^ 31) \<le> foldl hashStep h str \<and> foldl hashStep h str < 2 ^ 31"
proof (induction str arbitrary: h)
  case Nil
  then show ?case by simp
next
  case (Cons c cs)
  have "- (2 ^ 31) \<le> hashStep h c \<and> hashStep h c < 2 ^ 31"
    unfolding hashStep_def by (rule toInt32_range)
  from Cons.IH [OF this] show ?case by simp
qed

lemma calculateChecksum_valid:
  "length (calculateChecksum str) = 2 \<and> list_all isHexChar (calculateChecksum str)"
proof -
  let ?n = "nat (foldl (\<lambda>sum c. sum + charCodeAt c) 0 str mod 256)"
  have "?n < 16 ^ 2" by simp
  then have "length (natToString 16 ?n) \<le> 2"
    by (intro natToString16_length) simp_all
  then show ?thesis
    unfolding calculateChecksum_def
    by (simp add: padStart_length padStart_hex isHexChar_zero natToString16_hex)
qed

lemma calculateHash_valid: "isValidHash (calculateHash str)"
proof -
  let ?h = "foldl hashStep 5381 str"
  have "- (2 ^ 31) \<le> ?h \<and> ?h < 2 ^ 31"
    by (rule hashLoop_range) simp
  then have "nat (abs ?h) < 16 ^ 8" by (simp add: abs_if) arith
  then have len: "length (natToString 16 (nat (abs ?h))) \<le> 8"
    by (intro natToString16_length) simp_all
  show ?thesis
    unfolding isValidHash_def calculateHash_def Let_def
    using calculateChecksum_valid [of str] len
    by (simp add: padStart_length padStart_hex isHexChar_zero natToString16_hex)
qed

text \<open>
  C10: every string \<open>generateDataHash\<close> returns, from the normal path and from the fallback
  path alike, is accepted by \<open>isValidHash\<close>: ten characters of \<open>[0-9a-f]\<close>, eight for the
  hash and two for the checksum.
\<close>

theorem generateDataHash_valid: "isValidHash (generateDataHash h data)"
  unfolding generateDataHash_def tryGenerateDataHash_def generateFallbackHash_def Let_def
  by (simp add: calculateHash_valid split: sum.split)

subsection \<open>The fallback digest\<close>

lemma iso_morning: "toISOString (Time 1705314600000) = Inr ''2024-01-15T10:30:00.000Z''"
  by (simp add: date_defs num_evals)

lemma iso_afternoon: "toISOString (Time 1705332600000) = Inr ''2024-01-15T15:30:00.000Z''"
  by (simp add: date_defs num_evals)

lemma normalize_morning:
  "normalizeTransfer (transferAt (Time 1705314600000)) =
     Inr \<lparr> n_vehicleId = ''abc-123'', n_toDriver = ''juan perez'', n_fromDriver = [],
           n_dateTime = Some ''2024-01-15T10:30:00.000Z'' \<rparr>"
  by (simp add: normalizeTransfer_def transferAt_def iso_morning normalizeString_def string_defs)

lemma normalize_afternoon:
  "normalizeTransfer (transferAt (Time 1705332600000)) =
     Inr \<lparr> n_vehicleId = ''abc-123'', n_toDriver = ''juan perez'', n_fromDriver = [],
           n_dateTime = Some ''2024-01-15T15:30:00.000Z'' \<rparr>"
  by (simp add: normalizeTransfer_def transferAt_def iso_afternoon normalizeString_def string_defs)

lemma normalize_invalid: "normalizeTransfer (transferAt InvalidDate) = Inl RangeError"
  by (simp add: normalizeTransfer_def transferAt_def toISOString_def)

lemma try_invalid: "tryGenerateDataHash h (batchOf [transferAt InvalidDate]) = Inl RangeError"
  by (simp add: tryGenerateDataHash_def normalizeData_def normalizeTransfers_def batchOf_def
      normalize_invalid)

lemma generateFallbackHash_eq:
  "generateFallbackHash h =
     calculateHash (''fallback_'' @ intToString (now h) @ ''_'' @ drop 2 (random36 h))"
  unfolding generateFallbackHash_def Let_def by (rule refl)

lemma fallback_string:
  "''fallback_'' @ intToString (now (utcHost 1700000000000)) @ ''_'' @
     drop 2 (random36 (utcHost 1700000000000)) = ''fallback_1700000000000_4fzyo82mvyr''"
  by (simp add: utcHost_def num_evals)

lemma fallback_string_later:
  "''fallback_'' @ intToString (now (utcHost 1700000000001)) @ ''_'' @
     drop 2 (random36 (utcHost 1700000000001)) = ''fallback_1700000000001_4fzyo82mvyr''"
  by (simp add: utcHost_def num_evals)

lemma fallback_value: "calculateHash ''fallback_1700000000000_4fzyo82mvyr'' = ''17d188bf9a''"
  by (simp add: calc_defs num_evals)

lemma fallback_value_later: "calculateHash ''fallback_1700000000001_4fzyo82mvyr'' = ''673092409b''"
  by (simp add: calc_defs num_evals)

lemma fallback_at: "generateFallbackHash (utcHost 1700000000000) = ''17d188bf9a''"
  by (simp only: generateFallbackHash_eq fallback_string fallback_value)

lemma fallback_at_later: "generateFallbackHash (utcHost 1700000000001) = ''673092409b''"
  by (simp only: generateFallbackHash_eq fallback_string_later fallback_value_later)

text \<open>
  C1, as stated, fails: a batch with a transfer whose \<open>dateTime\<close> is an invalid date makes
  \<open>toISOString\<close> throw inside the \<open>try\<close> block, and \<open>generateDataHash\<close> returns the digest
  of \<open>fallback_<clock>_<random>\<close>, which changes with the clock.
\<close>

theorem fallback_digest_returned:
  "tryGenerateDataHash (utcHost 1700000000000) (batchOf [transferAt InvalidDate]) = Inl RangeError \<and>
   generateDataHash (utcHost 1700000000000) (batchOf [transferAt InvalidDate]) = ''17d188bf9a'' \<and>
   generateDataHash (utcHost 1700000000001) (batchOf [transferAt InvalidDate]) = ''673092409b''"
  by (simp add: try_invalid generateDataHash_def fallback_at fallback_at_later)

text \<open>
  C1, amended: on every input on which the normalization throws, \<open>generateDataHash\<close> catches
  the error and returns the digest of the string \<open>fallback_\<close>, the clock reading, \<open>_\<close> and
  the random string; the error is never propagated.
\<close>

theorem generateDataHash_catches:
  "tryGenerateDataHash h d = Inl e \<Longrightarrow>
   generateDataHash h d =
     calculateHash (''fallback_'' @ intToString (now h) @ ''_'' @ drop 2 (random36 h))"
  by (simp add: generateDataHash_def generateFallbackHash_def)

theorem generateDataHash_catches_witness:
  "generateDataHash (utcHost 1700000000000) (batchOf [transferAt InvalidDate]) =
     calculateHash (''fallback_'' @ intToString (now (utcHost 1700000000000)) @ ''_'' @
                    drop 2 (random36 (utcHost 1700000000000)))"
proof -
  have thrown: "tryGenerateDataHash (utcHost 1700000000000) (batchOf [transferAt InvalidDate]) =
      Inl RangeError"
    by (rule try_invalid)
  from generateDataHash_catches [OF thrown] show ?thesis .
qed

subsection \<open>The digest and the order of the transfers\<close>

lemma sortBy_keeps_equal_keys: "cmp a b \<le> 0 \<Longrightarrow> sortBy cmp [a, b] = [a, b]"
  by (simp add: sortBy_def)

lemma normalize_morning_first:
  "normalizeData (utcHost 0)
     (batchOf [transferAt (Time 1705314600000), transferAt (Time 1705332600000)]) =
   Inr \<lparr> nd_transfersCount = 2,
         nd_transfers =
           [\<lparr> n_vehicleId = ''abc-123'', n_toDriver = ''juan perez'', n_fromDriver = [],
              n_dateTime = Some ''2024-01-15T10:30:00.000Z'' \<rparr>,
            \<lparr> n_vehicleId = ''abc-123'', n_toDriver = ''juan perez'', n_fromDriver = [],
              n_dateTime = Some ''2024-01-15T15:30:00.000Z'' \<rparr>],
         nd_filesProcessed = [''chat.txt''], nd_source = ''whatsapp'', nd_department = [] \<rparr>"
  by (simp add: normalizeData_def normalizeTransfers_def batchOf_def normalize_morning
      normalize_afternoon utcHost_def sortBy_def sortKey_def codeUnitCompare_def
      normalizeFilesList_def normalizeNumber_def normalizeString_def string_defs)

lemma normalize_afternoon_first:
  "normalizeData (utcHost 0)
     (batchOf [transferAt (Time 1705332600000), transferAt (Time 1705314600000)]) =
   Inr \<lparr> nd_transfersCount = 2,
         nd_transfers =
           [\<lparr> n_vehicleId = ''abc-123'', n_toDriver = ''juan perez'', n_fromDriver = [],
              n_dateTime = Some ''2024-01-15T15:30:00.000Z'' \<rparr>,
            \<lparr> n_vehicleId = ''abc-123'', n_toDriver = ''juan perez'', n_fromDriver = [],
              n_dateTime = Some ''2024-01-15T10:30:00.000Z'' \<rparr>],
         nd_filesProcessed = [''chat.txt''], nd_source = ''whatsapp'', nd_department = [] \<rparr>"
  by (simp add: normalizeData_def normalizeTransfers_def batchOf_def normalize_morning
      normalize_afternoon utcHost_def sortBy_def sortKey_def codeUnitCompare_def
      normalizeFilesList_def normalizeNumber_def normalizeString_def string_defs)

lemma digest_morning_first:
  "generateDataHash (utcHost 0)
     (batchOf [transferAt (Time 1705314600000), transferAt (Time 1705332600000)]) = ''30f7347f7a''"
  by (simp add: generateDataHash_def tryGenerateDataHash_def normalize_morning_first ser_defs
      calc_defs num_evals)

lemma digest_afternoon_first:
  "generateDataHash (utcHost 0)
     (batchOf [transferAt (Time 1705332600000), transferAt (Time 1705314600000)]) = ''4b471fc17a''"
  by (simp add: generateDataHash_def tryGenerateDataHash_def normalize_afternoon_first ser_defs
      calc_defs num_evals)

text \<open>
  C2 at a failing input: two transfers of the same vehicle to the same driver on the same
  day, at 10:30 and at 15:30. Their sort keys are equal, the stable sort leaves them in the
  order of the input, and the two orders of the same batch have different digests.
\<close>

theorem digest_differs_for_permuted_batch:
  "generateDataHash (utcHost 0)
     (batchOf [transferAt (Time 1705314600000), transferAt (Time 1705332600000)]) \<noteq>
   generateDataHash (utcHost 0)
     (batchOf [transferAt (Time 1705332600000), transferAt (Time 1705314600000)])"
  by (simp add: digest_morning_first digest_afternoon_first)

subsection \<open>Pattern extraction on the example line\<close>

lemma line_passTo:
  "execAll True passTo 0 0 ''le paso el carro ABC-123 a Juan Perez'' =
     Some [\<lparr> m_index = 0, m_text = ''le paso el carro ABC-123 a Juan Perez'',
             m_caps = [(2, ''Juan Perez''), (1, ''ABC-123'')] \<rparr>]"
  by (simp add: pat_defs re_defs char_defs)

lemma line_seLoPaso:
  "execAll True seLoPaso 0 0 ''le paso el carro ABC-123 a Juan Perez'' = Some []"
  by (simp add: pat_defs re_defs char_defs)

lemma line_recibe:
  "execAll True recibe 0 0 ''le paso el carro ABC-123 a Juan Perez'' = Some []"
  by (simp add: pat_defs re_defs char_defs)

lemma line_transferir:
  "execAll True transferir 0 0 ''le paso el carro ABC-123 a Juan Perez'' = Some []"
  by (simp add: pat_defs re_defs char_defs)

lemma line_dejaToma:
  "execAll True dejaToma 0 0 ''le paso el carro ABC-123 a Juan Perez'' = Some []"
  by (simp add: pat_defs re_defs char_defs)

lemma line_carroPara:
  "execAll True carroPara 0 0 ''le paso el carro ABC-123 a Juan Perez'' = Some []"
  by (simp add: pat_defs re_defs char_defs)

lemma clean_plate: "cleanVehicleId ''ABC-123'' = ''ABC-123''"
  by (simp add: cleanVehicleId_def string_defs)

lemma clean_name: "cleanDriverName ''Juan Perez'' = ''Juan Perez''"
  by (simp add: cleanDriverName_def replaceAtStart_def replaceFirst_def exec_def pat_defs re_defs
      string_defs Let_def)

lemma line_confidence: "calculateConfidence ''le paso el carro ABC-123 a Juan Perez'' 0 = 19 / 20"
  by (simp add: calculateConfidence_def patternConfidence_def keyWords_def string_defs Let_def)

lemma line_candidates:
  "findTransferPatterns ''le paso el carro ABC-123 a Juan Perez'' =
     Some [\<lparr> vehicleId = ''ABC-123'', fromDriver = None, toDriver = ''Juan Perez'',
             patternUsed = 0, confidence = 19 / 20 \<rparr>]"
  by (simp add: findTransferPatterns_def transferPatterns_def line_passTo line_seLoPaso line_recibe
      line_transferir line_dejaToma line_carroPara fromMatch_def interpretGroups_def capture_def
      clean_plate clean_name line_confidence del: execAll.simps)

text \<open>
  C8: on the line \<open>le paso el carro ABC-123 a Juan Perez\<close> the six patterns together give
  exactly one candidate; its vehicle token normalizes to \<open>ABC-123\<close>, its to-driver token is
  \<open>Juan Perez\<close> and its confidence is at least 0.9.
\<close>

theorem example_line_one_candidate:
  "\<exists>c. findTransferPatterns ''le paso el carro ABC-123 a Juan Perez'' = Some [c] \<and>
       cleanVehicleId (vehicleId c) = ''ABC-123'' \<and> toDriver c = ''Juan Perez'' \<and>
       confidence c \<ge> 9 / 10"
  by (simp add: line_candidates clean_plate)

subsection \<open>The alphabet of a cleaned vehicle token\<close>

lemma set_trim: "set (trim s) \<subseteq> set s"
proof -
  have "set (trim s) \<subseteq> set (rev (dropWhile isSpace s))"
    unfolding trim_def using set_dropWhileD by fastforce
  also have "\<dots> \<subseteq> set s"
    using set_dropWhileD by fastforce
  finally show ?thesis .
qed

lemma upperChar_no_lower: "c' \<in> set (upperChar c) \<Longrightarrow> \<not> isLowerAZ c'"
  by (auto simp: upperChar_def isLowerAZ_def Let_def split: if_splits)

lemma toUpperCase_no_lower: "c \<in> set (toUpperCase s) \<Longrightarrow> \<not> isLowerAZ c"
  by (auto simp: toUpperCase_def dest: upperChar_no_lower)

text \<open>
  C9, as stated, fails: \<open>cleanVehicleId\<close> keeps white space inside the token (as one blank),
  so its result is not always made of \<open>[A-Z0-9-]\<close> only.
\<close>

theorem cleanVehicleId_space_kept:
  "cleanVehicleId ''ab 12'' = ''AB 12'' \<and>
   \<not> list_all (\<lambda>c. isUpperAZ c \<or> isDigit c \<or> c = CHR ''-'') (cleanVehicleId ''ab 12'')"
  by (simp add: cleanVehicleId_def string_defs)

lemma collapseSpaces_word:
  "\<forall>c \<in> set w. \<not> isSpace c \<Longrightarrow> collapseSpaces False (w @ r) = w @ collapseSpaces False r"
  by (induction w) simp_all

lemma collapseSpaces_inRun:
  "collapseSpaces True r = collapseSpaces False (dropWhile isSpace r)"
  by (induction r) simp_all

lemma wordsOf_nonempty: "wordsOf s \<noteq> []"
  by (subst wordsOf.simps) simp

lemma wordsOf_last: "dropWhile (\<lambda>c. \<not> isSpace c) s = [] \<Longrightarrow> wordsOf s = [s]"
  by (subst wordsOf.simps) (simp only: if_True simp_thms)

lemma wordsOf_more:
  "dropWhile (\<lambda>c. \<not> isSpace c) s \<noteq> [] \<Longrightarrow>
   wordsOf s = takeWhile (\<lambda>c. \<not> isSpace c) s #
     wordsOf (dropWhile isSpace (dropWhile (\<lambda>c. \<not> isSpace c) s))"
  by (subst wordsOf.simps) (simp only: if_False simp_thms)

lemma intercalate_Cons: "ws \<noteq> [] \<Longrightarrow> intercalate sep (w # ws) = w @ sep @ intercalate sep ws"
  by (cases ws) simp_all

lemma collapseSpaces_words: "collapseSpaces False s = intercalate '' '' (wordsOf s)"
proof (induction s rule: wordsOf.induct)
  case (1 s)
  let ?w = "takeWhile (\<lambda>c. \<not> isSpace c) s"
  let ?r = "dropWhile (\<lambda>c. \<not> isSpace c) s"
  have split: "collapseSpaces False s = ?w @ collapseSpaces False ?r"
  proof -
    have "\<forall>c \<in> set ?w. \<not> isSpace c"
      by (auto dest: set_takeWhileD)
    from collapseSpaces_word [OF this, of ?r] show ?thesis
      by simp
  qed
  show ?case
  proof (cases "?r = []")
    case True
    then have "?w = s"
      by (metis append_Nil2 takeWhile_dropWhile_id)
    moreover from True have "collapseSpaces False ?r = []"
      by (simp only: collapseSpaces.simps)
    ultimately show ?thesis
      using split by (simp add: wordsOf_last [OF True])
  next
    case False
    then obtain c r where r: "?r = c # r"
      by (cases ?r) simp_all
    with hd_dropWhile [of "\<lambda>c. \<not> isSpace c" s] have space: "isSpace c"
      by simp
    from r space have "collapseSpaces False ?r = CHR '' '' # collapseSpaces False (dropWhile isSpace ?r)"
      by (simp add: collapseSpaces_inRun)
    also have "collapseSpaces False (dropWhile isSpace ?r) = intercalate '' '' (wordsOf (dropWhile isSpace ?r))"
      using False by (rule "1.IH")
    finally have "collapseSpaces False s = ?w @ '' '' @ intercalate '' '' (wordsOf (dropWhile isSpace ?r))"
      using split by simp
    also have "\<dots> = intercalate '' '' (?w # wordsOf (dropWhile isSpace ?r))"
      by (simp add: intercalate_Cons wordsOf_nonempty)
    also have "\<dots> = intercalate '' '' (wordsOf s)"
      by (simp only: wordsOf_more [OF False])
    finally show ?thesis .
  qed
qed

lemma wordsOf_chars: "w \<in> set (wordsOf s) \<Longrightarrow> c \<in> set w \<Longrightarrow> c \<in> set s \<and> \<not> isSpace c"
proof (induction s arbitrary: w rule: wordsOf.induct)
  case (1 s)
  let ?r = "dropWhile (\<lambda>c. \<not> isSpace c) s"
  show ?case
  proof (cases "?r = []")
    case True
    with "1.prems" have "w = s"
      by (simp add: wordsOf_last)
    moreover from True have "\<forall>c \<in> set s. \<not> isSpace c"
      by (simp add: dropWhile_eq_Nil_conv)
    ultimately show ?thesis
      using "1.prems" by simp
  next
    case False
    from "1.prems"(1) have "w \<in> set (takeWhile (\<lambda>c. \<not> isSpace c) s # wordsOf (dropWhile isSpace ?r))"
      by (simp only: wordsOf_more [OF False])
    then have "w = takeWhile (\<lambda>c. \<not> isSpace c) s \<or> w \<in> set (wordsOf (dropWhile isSpace ?r))"
      by simp
    then show ?thesis
    proof
      assume "w = takeWhile (\<lambda>c. \<not> isSpace c) s"
      with "1.prems" show ?thesis
        by (auto dest: set_takeWhileD)
    next
      assume "w \<in> set (wordsOf (dropWhile isSpace ?r))"
      from "1.IH" [OF False this "1.prems"(2)] show ?thesis
        by (auto dest: set_dropWhileD)
    qed
  qed
qed

lemma filter_intercalate:
  "P CHR '' '' \<Longrightarrow> filter P (intercalate '' '' ws) = intercalate '' '' (map (filter P) ws)"
  by (induction "'' ''" ws rule: intercalate.induct) simp_all

lemma upperChar_code:
  "c' \<in> set (upperChar c) \<Longrightarrow> (of_char c' :: nat) = 95 \<Longrightarrow> (of_char c :: nat) = 95"
  by (auto simp: upperChar_def Let_def split: if_splits)

lemma upperChar_underscore:
  assumes "CHR ''_'' \<in> set (upperChar c)"
  shows "c = CHR ''_''"
proof -
  from upperChar_code [OF assms] have "(of_char c :: nat) = of_char CHR ''_''"
    by simp
  then show ?thesis
    by (simp only: of_char_eq_iff)
qed

lemma toUpperCase_underscore: "CHR ''_'' \<in> set (toUpperCase s) \<Longrightarrow> CHR ''_'' \<in> set s"
  by (auto simp: toUpperCase_def dest: upperChar_underscore)

lemma cleanVehicleId_words:
  assumes "CHR ''_'' \<notin> set s"
  shows "cleanVehicleId s = plateNormalForm s"
proof -
  let ?K = "\<lambda>c. isWord c \<or> isSpace c \<or> c = CHR ''-''"
  let ?u = "toUpperCase (trim s)"
  have kept: "filter ?K w = filter plateChar w" if "w \<in> set (wordsOf ?u)" for w
  proof (rule filter_cong [OF refl])
    fix c
    assume "c \<in> set w"
    with that have in_u: "c \<in> set ?u" and "\<not> isSpace c"
      using wordsOf_chars by blast+
    from in_u have "\<not> isLowerAZ c"
      by (rule toUpperCase_no_lower)
    moreover have "c \<noteq> CHR ''_''"
    proof
      assume "c = CHR ''_''"
      with in_u have "CHR ''_'' \<in> set (trim s)"
        using toUpperCase_underscore by blast
      with assms show False
        using set_trim by blast
    qed
    ultimately show "?K c = plateChar c"
      using \<open>\<not> isSpace c\<close> by (auto simp: isWord_def plateChar_def)
  qed
  have "filter ?K (collapseSpaces False ?u) = intercalate '' '' (map (filter ?K) (wordsOf ?u))"
    by (simp add: collapseSpaces_words filter_intercalate isSpace_def)
  also have "map (filter ?K) (wordsOf ?u) = map (filter plateChar) (wordsOf ?u)"
    by (rule map_cong [OF refl]) (rule kept)
  finally have body: "trim (filter ?K (collapseSpaces False ?u)) = plateNormalForm s"
    by (simp add: plateNormalForm_def)
  show ?thesis
  proof (cases "s = []")
    case True
    then have "plateNormalForm s = []"
      by (simp add: plateNormalForm_def trim_def toUpperCase_def wordsOf_last)
    with True show ?thesis
      by (simp add: cleanVehicleId_def)
  next
    case False
    with body show ?thesis
      by (simp add: cleanVehicleId_def)
  qed
qed

lemma intercalate_chars:
  "c \<in> set (intercalate sep ws) \<Longrightarrow> c \<in> set sep \<or> (\<exists>w \<in> set ws. c \<in> set w)"
  by (induction sep ws rule: intercalate.induct) auto

lemma plateNormalForm_chars:
  assumes "c \<in> set (plateNormalForm s)"
  shows "plateChar c \<or> c = CHR '' ''"
proof -
  from assms have "c \<in> set (intercalate '' '' (map (filter plateChar) (wordsOf (toUpperCase (trim s)))))"
    unfolding plateNormalForm_def using set_trim by blast
  from intercalate_chars [OF this] show ?thesis
    by auto
qed

lemma trim_decomp:
  "\<exists>a b. s = a @ trim s @ b \<and> (\<forall>c \<in> set a. isSpace c) \<and> (\<forall>c \<in> set b. isSpace c)"
proof -
  let ?a = "takeWhile isSpace s"
  let ?y = "dropWhile isSpace s"
  let ?b = "rev (takeWhile isSpace (rev ?y))"
  have "rev (dropWhile isSpace (rev ?y)) @ ?b =
      rev (takeWhile isSpace (rev ?y) @ dropWhile isSpace (rev ?y))"
    by (simp only: rev_append)
  also have "\<dots> = rev (rev ?y)"
    by (simp only: takeWhile_dropWhile_id)
  also have "\<dots> = ?y"
    by (simp only: rev_rev_ident)
  finally have "trim s @ ?b = ?y"
    by (simp only: trim_def)
  then have "s = ?a @ trim s @ ?b"
    by (metis takeWhile_dropWhile_id)
  moreover have "\<forall>c \<in> set ?a. isSpace c"
    by (auto dest: set_takeWhileD)
  moreover have "\<forall>c \<in> set ?b. isSpace c"
    by (auto dest: set_takeWhileD)
  ultimately show ?thesis
    by blast
qed

lemma plateChar_not_space: "isSpace c \<Longrightarrow> \<not> plateChar c"
  by (auto simp: plateChar_def isSpace_def isUpperAZ_def isDigit_def)

lemma filter_spaces: "\<forall>c \<in> set a. isSpace c \<Longrightarrow> filter plateChar a = []"
  by (induction a) (simp_all add: plateChar_not_space)

lemma filter_trim: "filter plateChar (trim s) = filter plateChar s"
proof -
  from trim_decomp [of s] obtain a b where
    s: "s = a @ trim s @ b" and a: "\<forall>c \<in> set a. isSpace c" and b: "\<forall>c \<in> set b. isSpace c"
    by blast
  have "filter plateChar s = filter plateChar (a @ trim s @ b)"
    using s by simp
  also have "\<dots> = filter plateChar (trim s)"
    by (simp add: filter_spaces [OF a] filter_spaces [OF b])
  finally show ?thesis
    by simp
qed

lemma upperChar_space: "isSpace c \<Longrightarrow> upperChar c = [c]"
  by (auto simp: upperChar_def isSpace_def Let_def)

lemma toUpperCase_spaces: "\<forall>c \<in> set a. isSpace c \<Longrightarrow> toUpperCase a = a"
  by (induction a) (simp_all add: toUpperCase_def upperChar_space)

lemma toUpperCase_append: "toUpperCase (a @ b) = toUpperCase a @ toUpperCase b"
  by (simp add: toUpperCase_def)

lemma filter_toUpperCase_trim:
  "filter plateChar (toUpperCase (trim s)) = filter plateChar (toUpperCase s)"
proof -
  from trim_decomp [of s] obtain a b where
    s: "s = a @ trim s @ b" and a: "\<forall>c \<in> set a. isSpace c" and b: "\<forall>c \<in> set b. isSpace c"
    by blast
  have "filter plateChar (toUpperCase s) = filter plateChar (toUpperCase (a @ trim s @ b))"
    using s by simp
  also have "\<dots> = filter plateChar (toUpperCase (trim s))"
    by (simp add: toUpperCase_append toUpperCase_spaces [OF a] toUpperCase_spaces [OF b]
        filter_spaces [OF a] filter_spaces [OF b])
  finally show ?thesis
    by simp
qed

lemma filter_collapseSpaces: "filter plateChar (collapseSpaces b s) = filter plateChar s"
  by (induction b s rule: collapseSpaces.induct)
    (simp_all add: plateChar_not_space, simp add: plateChar_def isUpperAZ_def isDigit_def)

lemma cleanVehicleId_content:
  "filter plateChar (cleanVehicleId s) = filter plateChar (toUpperCase s)"
proof (cases "s = []")
  case True
  then show ?thesis
    by (simp add: cleanVehicleId_def toUpperCase_def)
next
  case False
  let ?K = "\<lambda>c. isWord c \<or> isSpace c \<or> c = CHR ''-''"
  have "filter plateChar (filter ?K u) = filter plateChar u" for u
    by (induction u) (auto simp: plateChar_def isWord_def)
  with False show ?thesis
    by (simp add: cleanVehicleId_def filter_trim filter_collapseSpaces filter_toUpperCase_trim
        del: filter_filter)
qed

text \<open>
  C9, amended: for every input string without an underscore, \<open>cleanVehicleId\<close> returns the
  normal form of the token: the input upper-cased, each of its words without the characters
  outside \<open>[A-Z0-9-]\<close>, the words joined by single blanks and no blank at either end. Its
  result is made of upper-case letters, digits, hyphens and blanks only and, the blanks apart,
  is the upper-cased input without the characters outside \<open>[A-Z0-9-]\<close>. The empty input
  gives the empty string.
\<close>

theorem cleanVehicleId_normal_form:
  assumes "CHR ''_'' \<notin> set s"
  shows "cleanVehicleId s = plateNormalForm s \<and>
         list_all (\<lambda>c. plateChar c \<or> c = CHR '' '') (cleanVehicleId s) \<and>
         filter (\<lambda>c. c \<noteq> CHR '' '') (cleanVehicleId s) = filter plateChar (toUpperCase s) \<and>
         cleanVehicleId [] = []"
proof -
  have form: "cleanVehicleId s = plateNormalForm s"
    using assms by (rule cleanVehicleId_words)
  have alphabet: "list_all (\<lambda>c. plateChar c \<or> c = CHR '' '') (cleanVehicleId s)"
    unfolding form list_all_iff using plateNormalForm_chars by blast
  have "filter (\<lambda>c. c \<noteq> CHR '' '') (cleanVehicleId s) = filter plateChar (cleanVehicleId s)"
  proof (rule filter_cong [OF refl])
    fix c
    assume "c \<in> set (cleanVehicleId s)"
    with alphabet have "plateChar c \<or> c = CHR '' ''"
      by (simp add: list_all_iff)
    then show "(c \<noteq> CHR '' '') = plateChar c"
      by (auto simp: plateChar_def isUpperAZ_def isDigit_def)
  qed
  then have content: "filter (\<lambda>c. c \<noteq> CHR '' '') (cleanVehicleId s) = filter plateChar (toUpperCase s)"
    by (simp only: cleanVehicleId_content)
  have "cleanVehicleId [] = []"
    by (simp add: cleanVehicleId_def)
  with form alphabet content show ?thesis
    by blast
qed

theorem cleanVehicleId_normal_form_witness:
  "CHR ''_'' \<notin> set ''ab  1!2-c'' \<and>
   plateNormalForm ''ab  1!2-c'' = ''AB 12-C'' \<and>
   cleanVehicleId ''ab  1!2-c'' = plateNormalForm ''ab  1!2-c'' \<and>
   list_all (\<lambda>c. plateChar c \<or> c = CHR '' '') (cleanVehicleId ''ab  1!2-c'') \<and>
   filter (\<lambda>c. c \<noteq> CHR '' '') (cleanVehicleId ''ab  1!2-c'') =
     filter plateChar (toUpperCase ''ab  1!2-c'')"
proof -
  have no_underscore: "CHR ''_'' \<notin> set ''ab  1!2-c''"
    by simp
  have words: "wordsOf ''AB  1!2-C'' = [''AB'', ''1!2-C'']"
    by (simp add: wordsOf_last wordsOf_more isSpace_def)
  have form: "plateNormalForm ''ab  1!2-c'' = ''AB 12-C''"
    by (simp add: plateNormalForm_def string_defs plateChar_def words)
  from cleanVehicleId_normal_form [OF no_underscore] no_underscore form show ?thesis
    by blast
qed

subsection \<open>Temporal extraction stops at the first matching layout\<close>









subsection \<open>Deduplication\<close>

lemma dedupFilter_subseq: "subseq (dedupFilter seen ts) ts"
  by (induction ts arbitrary: seen) auto

lemma dedupFilter_keys:
  "set (map dedupKey (dedupFilter seen ts)) = set (map dedupKey ts) - seen"
  by (induction ts arbitrary: seen) auto

lemma dedupFilter_distinct: "distinct (map dedupKey (dedupFilter seen ts))"
proof (induction ts arbitrary: seen)
  case Nil
  then show ?case by simp
next
  case (Cons t ts)
  have "dedupKey t \<notin> set (map dedupKey (dedupFilter (insert (dedupKey t) seen) ts))"
    by (simp only: dedupFilter_keys) simp
  with Cons show ?case by simp
qed

lemma dedupFilter_first:
  "t \<in> set (dedupFilter seen ts) \<Longrightarrow> find (\<lambda>u. dedupKey u = dedupKey t) ts = Some t"
proof (induction ts arbitrary: seen)
  case Nil
  then show ?case by simp
next
  case (Cons x xs)
  show ?case
  proof (cases "dedupKey x \<in> seen")
    case True
    with Cons.prems have in_rest: "t \<in> set (dedupFilter seen xs)" by simp
    then have "dedupKey t \<in> set (map dedupKey (dedupFilter seen xs))" by simp
    then have "dedupKey t \<notin> seen" by (simp only: dedupFilter_keys) simp
    with True have "dedupKey x \<noteq> dedupKey t" by auto
    with Cons.IH [OF in_rest] show ?thesis by simp
  next
    case False
    with Cons.prems have "t = x \<or> t \<in> set (dedupFilter (insert (dedupKey x) seen) xs)" by simp
    then show ?thesis
    proof
      assume "t = x"
      then show ?thesis by simp
    next
      assume in_rest: "t \<in> set (dedupFilter (insert (dedupKey x) seen) xs)"
      then have "dedupKey t \<in> set (map dedupKey (dedupFilter (insert (dedupKey x) seen) xs))"
        by simp
      then have "dedupKey t \<noteq> dedupKey x" by (simp only: dedupFilter_keys) auto
      with Cons.IH [OF in_rest] show ?thesis by simp
    qed
  qed
qed

text \<open>
  What the filter does keep: the result is a subsequence of the input, its key strings are
  pairwise different and are the key strings of the input, and each survivor is the first
  candidate of the input with its key string.
\<close>

lemma dedup_first_of_each_key:
  "subseq (deduplicateTransfers ts) ts \<and>
   distinct (map dedupKey (deduplicateTransfers ts)) \<and>
   set (map dedupKey (deduplicateTransfers ts)) = set (map dedupKey ts) \<and>
   map (\<lambda>t. find (\<lambda>u. dedupKey u = dedupKey t) ts) (deduplicateTransfers ts) =
     map Some (deduplicateTransfers ts)"
proof -
  have keys: "set (map dedupKey (dedupFilter {} ts)) = set (map dedupKey ts)"
    by (simp only: dedupFilter_keys) simp
  have first: "map (\<lambda>t. find (\<lambda>u. dedupKey u = dedupKey t) ts) (dedupFilter {} ts) =
      map Some (dedupFilter {} ts)"
    by (rule map_cong) (simp_all add: dedupFilter_first)
  show ?thesis
    unfolding deduplicateTransfers_def
    using keys first
    by (simp add: dedupFilter_subseq dedupFilter_distinct)
qed

lemma dated_passTo:
  "execAll True passTo 0 0 ''01/01/1970, 00:00 le paso el carro ABC-123 a Juan Perez'' =
     Some [\<lparr> m_index = 18, m_text = ''le paso el carro ABC-123 a Juan Perez'',
             m_caps = [(2, ''Juan Perez''), (1, ''ABC-123'')] \<rparr>]"
  by (simp add: pat_defs re_defs char_defs)

lemma dated_seLoPaso:
  "execAll True seLoPaso 0 0 ''01/01/1970, 00:00 le paso el carro ABC-123 a Juan Perez'' = Some []"
  by (simp add: pat_defs re_defs char_defs)

lemma dated_recibe:
  "execAll True recibe 0 0 ''01/01/1970, 00:00 le paso el carro ABC-123 a Juan Perez'' = Some []"
  by (simp add: pat_defs re_defs char_defs)

lemma dated_transferir:
  "execAll True transferir 0 0 ''01/01/1970, 00:00 le paso el carro ABC-123 a Juan Perez'' = Some []"
  by (simp add: pat_defs re_defs char_defs)

lemma dated_dejaToma:
  "execAll True dejaToma 0 0 ''01/01/1970, 00:00 le paso el carro ABC-123 a Juan Perez'' = Some []"
  by (simp add: pat_defs re_defs char_defs)

lemma dated_carroPara:
  "execAll True carroPara 0 0 ''01/01/1970, 00:00 le paso el carro ABC-123 a Juan Perez'' = Some []"
  by (simp add: pat_defs re_defs char_defs)

lemma dated_candidates:
  "findTransferPatterns ''01/01/1970, 00:00 le paso el carro ABC-123 a Juan Perez'' =
     Some [\<lparr> vehicleId = ''ABC-123'', fromDriver = None, toDriver = ''Juan Perez'',
             patternUsed = 0, confidence = 19 / 20 \<rparr>]"
  by (simp add: findTransferPatterns_def transferPatterns_def dated_passTo dated_seLoPaso
      dated_recibe dated_transferir dated_dejaToma dated_carroPara fromMatch_def
      interpretGroups_def capture_def clean_plate clean_name line_confidence del: execAll.simps)

lemma dated_layout:
  "exec False longYearLayout ''01/01/1970, 00:00 le paso el carro ABC-123 a Juan Perez'' =
     Some \<lparr> m_index = 0, m_text = ''01/01/1970, 00:00'',
            m_caps = [(2, ''00:00''), (Suc 0, ''01/01/1970'')] \<rparr>"
  by (simp add: exec_def pat_defs re_defs char_defs)

lemma dated_parse:
  "parseMatch (utcHost 0) \<lparr> m_index = 0, m_text = ''01/01/1970, 00:00'',
      m_caps = [(2, ''00:00''), (Suc 0, ''01/01/1970'')] \<rparr> = Inr (Some (Time 0))"
  by (simp add: parseMatch_def convertDate_def capture_def utcHost_def parseIsoUTC_def
      digitsValue_def charCodeAt_def isDigit_def cal_defs padStart_def Let_def)

lemma dated_time:
  "extractDateTime (utcHost 0) ''01/01/1970, 00:00 le paso el carro ABC-123 a Juan Perez'' =
     Some (Time 0)"
  by (simp add: extractDateTime_def dateTimePatterns_def dated_layout dated_parse)

lemma undated_long:
  "exec False longYearLayout ''le paso el carro ABC-123 a Juan Perez'' = None"
  by (simp add: exec_def pat_defs re_defs char_defs)

lemma undated_short:
  "exec False shortYearLayout ''le paso el carro ABC-123 a Juan Perez'' = None"
  by (simp add: exec_def pat_defs re_defs char_defs)

lemma undated_bracket:
  "exec False bracketLayout ''le paso el carro ABC-123 a Juan Perez'' = None"
  by (simp add: exec_def pat_defs re_defs char_defs)

lemma undated_time:
  "extractDateTime (utcHost 0) ''le paso el carro ABC-123 a Juan Perez'' = None"
  by (simp add: extractDateTime_def dateTimePatterns_def undated_long undated_short
      undated_bracket)

lemma epochChat_lines: "splitOn (CHR 0x0A) epochChat = [datedLine, undatedLine]"
  by (simp add: epochChat_def datedLine_def undatedLine_def)

lemma trim_dated:
  "trim ''01/01/1970, 00:00 le paso el carro ABC-123 a Juan Perez'' =
     ''01/01/1970, 00:00 le paso el carro ABC-123 a Juan Perez''"
  by (simp add: trim_def isSpace_def)

lemma trim_undated:
  "trim ''le paso el carro ABC-123 a Juan Perez'' = ''le paso el carro ABC-123 a Juan Perez''"
  by (simp add: trim_def isSpace_def)

lemma epochChat_candidates:
  "parseLines (utcHost 0) 0 (splitOn (CHR 0x0A) epochChat) = Some [epochCandidate, undatedCandidate]"
  by (simp add: epochChat_lines trim_dated trim_undated dated_candidates line_candidates
      dated_time undated_time withLine_def transfer.extend_def epochCandidate_def
      undatedCandidate_def datedLine_def undatedLine_def Let_def)

text \<open>
  C6 fails on the code: a chat with two messages about the same hand-over, the first stamped
  with the epoch and the second without a time stamp, gives two candidates that differ in
  their time stamp, and deduplication drops the second: the time value 0 is falsy, and the
  key string gets the text \<open>no-date\<close> for it as it does for a missing time stamp.
\<close>

theorem epoch_candidate_dropped:
  "parseLines (utcHost 0) 0 (splitOn (CHR 0x0A) epochChat) = Some [epochCandidate, undatedCandidate] \<and>
   dateTime epochCandidate = Some (Time 0) \<and> dateTime undatedCandidate = None \<and>
   deduplicateTransfers [epochCandidate, undatedCandidate] = [epochCandidate] \<and>
   parseChat (utcHost 0) epochChat = Some [epochCandidate]"
proof -
  have dropped: "deduplicateTransfers [epochCandidate, undatedCandidate] = [epochCandidate]"
    by (simp add: deduplicateTransfers_def dedupKey_def timeOrNoDate_def epochCandidate_def
        undatedCandidate_def)
  have "epochChat \<noteq> []"
    by (simp add: epochChat_def datedLine_def)
  then have parsed: "parseChat (utcHost 0) epochChat = Some [epochCandidate]"
    by (simp add: parseChat_def epochChat_candidates dropped)
  have stamps: "dateTime epochCandidate = Some (Time 0)" "dateTime undatedCandidate = None"
    by (simp_all add: epochCandidate_def undatedCandidate_def)
  from epochChat_candidates stamps dropped parsed show ?thesis
    by blast
qed

subsection \<open>Validity of reconciled transfers\<close>

lemma enrichTransfer_valid: "validityHolds (enrichTransfer vs ds t)"
  by (simp add: enrichTransfer_def validityHolds_def Let_def parsedTransfer.defs)

lemma enrichTransfers_valid: "list_all validityHolds (enrichTransfers vs ds ts)"
  by (simp add: enrichTransfers_def list_all_iff enrichTransfer_valid)

lemma handleManualMatch_length [simp]:
  "length (handleManualMatch vs ds xs i ty sel) = length xs"
  by (simp add: handleManualMatch_def onUpdateTransfer_def Let_def)

lemma handleManualMatch_valid:
  assumes "list_all validityHolds xs"
  shows "list_all validityHolds (handleManualMatch vs ds xs i ty sel)"
proof -
  have "validityHolds y \<Longrightarrow> list_all validityHolds (xs[i := y])" for y
    using assms set_update_subset_insert [of xs i y] by (auto simp: list_all_iff)
  then show ?thesis
    by (simp add: handleManualMatch_def onUpdateTransfer_def Let_def validityHolds_def)
qed

lemma overrides_valid:
  "list_all validityHolds xs \<Longrightarrow> list_all validityHolds (foldl (applyOverride vs ds) xs ovs)"
  by (induction ovs arbitrary: xs) (simp_all add: applyOverride_def handleManualMatch_valid)

lemma overrides_length [simp]: "length (foldl (applyOverride vs ds) xs ovs) = length xs"
  by (induction ovs arbitrary: xs) (simp_all add: applyOverride_def)

lemma fromDriver_keeps_isValid:
  assumes "list_all validityHolds xs" and "i < length xs"
  shows "map isValid (handleManualMatch vs ds xs i ''fromDriver'' sel) = map isValid xs"
proof -
  from assms have "validityHolds (xs ! i)"
    by (simp add: list_all_length)
  then have "(map isValid xs)[i := (vehicleMatch (xs ! i) \<noteq> None \<and> toDriverMatch (xs ! i) \<noteq> None)] =
      map isValid xs"
    using assms(2) by (simp add: validityHolds_def list_update_same_conv)
  then show ?thesis
    by (simp add: handleManualMatch_def onUpdateTransfer_def Let_def map_update)
qed

text \<open>
  C7: when the transfers are built by \<open>enrichTransfers\<close>, and after any sequence of manual
  overrides of rows of the preview, \<open>isValid\<close> holds exactly when \<open>vehicleMatch\<close> and
  \<open>toDriverMatch\<close> are both resolved; an override of \<open>fromDriver\<close> leaves \<open>isValid\<close> of
  every row as it was.
\<close>

theorem isValid_invariant:
  assumes "list_all (\<lambda>ov. o_index ov < length ts) ovs" and "i < length ts"
  shows "list_all validityHolds (enrichTransfers vs ds ts) \<and>
         list_all validityHolds (foldl (applyOverride vs ds) (enrichTransfers vs ds ts) ovs) \<and>
         map isValid (handleManualMatch vs ds
             (foldl (applyOverride vs ds) (enrichTransfers vs ds ts) ovs) i ''fromDriver'' sel) =
           map isValid (foldl (applyOverride vs ds) (enrichTransfers vs ds ts) ovs)"
proof -
  let ?xs = "foldl (applyOverride vs ds) (enrichTransfers vs ds ts) ovs"
  have valid: "list_all validityHolds ?xs"
    by (rule overrides_valid) (rule enrichTransfers_valid)
  have "i < length ?xs"
    using assms(2) by (simp add: enrichTransfers_def)
  with valid show ?thesis
    by (simp add: enrichTransfers_valid fromDriver_keeps_isValid)
qed

lemma unknown_driver_invalid:
  "map isValid (enrichTransfers registryVehicles registryDrivers [unknownDriverTransfer]) = [False]"
  by (simp add: enrichTransfers_def enrichTransfer_def registryVehicles_def registryDrivers_def
      unknownDriverTransfer_def findVehicleByIdentifier_def findDriverByName_def firstWord_def
      string_defs Let_def parsedTransfer.defs)

lemma override_makes_valid:
  "map isValid (foldl (applyOverride registryVehicles registryDrivers)
     (enrichTransfers registryVehicles registryDrivers [unknownDriverTransfer])
     [\<lparr> o_index = 0, o_type = ''toDriver'', o_selectedId = ''d1'' \<rparr>]) = [True]"
  by (simp add: applyOverride_def handleManualMatch_def onUpdateTransfer_def
      enrichTransfers_def enrichTransfer_def registryVehicles_def registryDrivers_def
      unknownDriverTransfer_def findVehicleByIdentifier_def findDriverByName_def firstWord_def
      string_defs Let_def parsedTransfer.defs)

theorem isValid_invariant_witness:
  "list_all validityHolds (enrichTransfers registryVehicles registryDrivers [unknownDriverTransfer]) \<and>
   list_all validityHolds
     (foldl (applyOverride registryVehicles registryDrivers)
        (enrichTransfers registryVehicles registryDrivers [unknownDriverTransfer])
        [\<lparr> o_index = 0, o_type = ''toDriver'', o_selectedId = ''d1'' \<rparr>]) \<and>
   map isValid (handleManualMatch registryVehicles registryDrivers
       (foldl (applyOverride registryVehicles registryDrivers)
          (enrichTransfers registryVehicles registryDrivers [unknownDriverTransfer])
          [\<lparr> o_index = 0, o_type = ''toDriver'', o_selectedId = ''d1'' \<rparr>]) 0 ''fromDriver'' ''d2'') =
     [True]"
proof -
  have in_range: "list_all (\<lambda>ov. o_index ov < length [unknownDriverTransfer])
      [\<lparr> o_index = 0, o_type = ''toDriver'', o_selectedId = ''d1'' \<rparr>]"
    by simp
  have row: "0 < length [unknownDriverTransfer]"
    by simp
  from isValid_invariant [OF in_range row, of registryVehicles registryDrivers "''d2''"]
  show ?thesis
    by (simp only: override_makes_valid)
qed

subsection \<open>When a date is flagged\<close>

lemma ceiling_days: "(\<lceil>(of_int d :: rat) / of_int msPerDay\<rceil> \<ge> 1) = (d > 0)"
proof -
  have "(1 \<le> \<lceil>(of_int d :: rat) / of_int msPerDay\<rceil>) = (0 < \<lceil>(of_int d :: rat) / of_int msPerDay\<rceil>)"
    by linarith
  also have "\<dots> = (0 < (of_int d :: rat) / of_int msPerDay)"
    by (simp only: zero_less_ceiling)
  also have "\<dots> = (d > 0)"
    by (simp add: msPerDay_def zero_less_divide_iff)
  finally show ?thesis .
qed

lemma shouldSendAlert_iff: "shouldSendAlert h t = (getDay h t \<in> set ALERT_DAYS \<and> t < now h)"
  unfolding shouldSendAlert_def Let_def
  by (simp only: ceiling_days) auto

text \<open>
  C5, as stated, fails: a date at midnight of the current calendar day is flagged ten hours
  later, and on the error path a Sunday is flagged too.
\<close>

theorem same_day_and_error_path_flagged:
  "shouldAlert (checkDailyProcessing (utcHost 1705314600000) emptyWorld (Time 1705276800000)) \<and>
   localDay (utcHost 1705314600000) 1705276800000 =
     localDay (utcHost 1705314600000) (now (utcHost 1705314600000)) \<and>
   getDay (utcHost 1705314600000) 1705190400000 \<notin> set ALERT_DAYS \<and>
   shouldAlert (checkDailyProcessing (utcHost 1705314600000)
     (emptyWorld\<lparr> firestoreUp := False \<rparr>) (Time 1705190400000))"
  by (simp add: checkDailyProcessing_def validateDate_def latestProcessing_def emptyWorld_def
      shouldSendAlert_iff getDay_def localDay_def utcHost_def msPerDay_def ALERT_DAYS_def)

lemma no_record_iff:
  "(filter (\<lambda>r. pr_date r = d) (map snd ds) = []) = (d \<notin> set (map (pr_date \<circ> snd) ds))"
  by (induction ds) auto

text \<open>
  C5, amended: for a valid date and a ledger that can be read, \<open>shouldAlert\<close> is true exactly
  when the ledger holds no record for the date, the day of the week of the date is in
  \<open>ALERT_DAYS\<close> and the date is earlier than now, by any amount; when the date is invalid or
  the ledger cannot be read, \<open>shouldAlert\<close> is true whatever the day of the week. The flag
  \<open>processed\<close> tells whether the ledger, when it can be read, holds a record for the date.
\<close>

theorem shouldAlert_characterised:
  "shouldAlert (checkDailyProcessing h w d) =
     (case d of
        InvalidDate \<Rightarrow> True
      | Time t \<Rightarrow>
          if firestoreUp w
          then formatDateString t \<notin> set (map (pr_date \<circ> snd) (daily_processing w)) \<and>
               getDay h t \<in> set ALERT_DAYS \<and> t < now h
          else True) \<and>
   processed (checkDailyProcessing h w d) =
     (case d of
        InvalidDate \<Rightarrow> False
      | Time t \<Rightarrow> firestoreUp w \<and>
          formatDateString t \<in> set (map (pr_date \<circ> snd) (daily_processing w)))"
proof (cases d)
  case InvalidDate
  then show ?thesis
    by (simp add: checkDailyProcessing_def validateDate_def)
next
  case (Time t)
  show ?thesis
  proof (cases "filter (\<lambda>r. pr_date r = formatDateString t) (map snd (daily_processing w))")
    case Nil
    with Time no_record_iff [of "formatDateString t" "daily_processing w"] show ?thesis
      by (simp add: checkDailyProcessing_def validateDate_def latestProcessing_def
          shouldSendAlert_iff)
  next
    case (Cons r rs)
    with Time no_record_iff [of "formatDateString t" "daily_processing w"] show ?thesis
      by (simp add: checkDailyProcessing_def validateDate_def latestProcessing_def)
  qed
qed

subsection \<open>One alert for a date\<close>

lemma setDoc_first_alert:
  "filter P (map snd ds) = [] \<Longrightarrow> P r \<Longrightarrow> filter P (map snd (setDoc docId r ds)) = [r]"
  by (induction ds) (auto split: if_splits)

lemma unprocessed_check:
  assumes "latestProcessing w (formatDateString t) = Inr None"
  shows "checkDailyProcessing h w (Time t) =
    \<lparr> processed = False, lastProcessing = None, shouldAlert = shouldSendAlert h t, error = None \<rparr>"
  using assms by (simp add: checkDailyProcessing_def validateDate_def)

lemma admin_email_valid: "matchAt False emailRegex ADMIN_EMAIL = Some (23, [])"
  by (simp add: emailRegex_def ADMIN_EMAIL_def notSpaceOrAt_def re_defs isSpace_def)

lemma built_email_valid: "validateEmailData (buildAlertEmailData h t) = Inr ()"
  by (simp add: validateEmailData_def buildAlertEmailData_def Let_def admin_email_valid
      ALERT_TYPES_def) (simp add: ADMIN_EMAIL_def DAILY_PROCESSING_def)

lemma saveForManualSending_keeps:
  "firestoreUp (saveForManualSending h w e err) = firestoreUp w \<and>
   outbox (saveForManualSending h w e err) = outbox w \<and>
   sent_alerts (saveForManualSending h w e err) = sent_alerts w \<and>
   daily_processing (saveForManualSending h w e err) = daily_processing w"
  by (simp add: saveForManualSending_def Let_def)

lemma sendAlert_built:
  "snd (sendAlert h w (buildAlertEmailData h t)) =
     (if \<not> validateConfiguration (emailConfig w)
      then saveForManualSending h w (buildAlertEmailData h t) None
      else case emailjs w (buildAlertEmailData h t) of
             Inr text \<Rightarrow> w\<lparr> outbox := outbox w @ [buildAlertEmailData h t] \<rparr>
           | Inl e \<Rightarrow> saveForManualSending h w (buildAlertEmailData h t) (Some (messageOf e)))"
  by (simp add: sendAlert_def built_email_valid sendViaEmailJS_def split: sum.split)

lemma sendAlert_keeps:
  "firestoreUp (snd (sendAlert h w e)) = firestoreUp w \<and>
   sent_alerts (snd (sendAlert h w e)) = sent_alerts w \<and>
   daily_processing (snd (sendAlert h w e)) = daily_processing w"
  by (simp add: sendAlert_def sendViaEmailJS_def saveForManualSending_keeps split: sum.split)

lemma first_send:
  assumes "firestoreUp w" and "dailyAlertsFor w (formatDateString t) = []"
  shows "sendDailyAlert h w (Time t) =
    (Inr True, recordAlertSent h (snd (sendAlert h w (buildAlertEmailData h t))) (formatDateString t))"
  using assms
  by (simp add: sendDailyAlert_def validateDate_def checkAlertSent_def dailyAlertsFor_def Let_def)

lemma second_send:
  assumes "firestoreUp w" and "dailyAlertsFor w (formatDateString t) \<noteq> []"
  shows "sendDailyAlert h w (Time t) = (Inr False, w)"
  using assms
  by (simp add: sendDailyAlert_def validateDate_def checkAlertSent_def dailyAlertsFor_def Let_def)

lemma recorded:
  assumes "firestoreUp w" and "dailyAlertsFor w dateStr = []"
  shows "dailyAlertsFor (recordAlertSent h w dateStr) dateStr =
    [\<lparr> a_date = dateStr, a_type = DAILY_PROCESSING, a_sentAt = now h, a_recipient = ADMIN_EMAIL \<rparr>]"
  using assms
  by (simp add: recordAlertSent_def dailyAlertsFor_def Let_def setDoc_first_alert isDailyAlertFor_def)

lemma recordAlertSent_keeps:
  "firestoreUp (recordAlertSent h w dateStr) = firestoreUp w \<and>
   outbox (recordAlertSent h w dateStr) = outbox w \<and>
   pending_emails (recordAlertSent h w dateStr) = pending_emails w \<and>
   daily_processing (recordAlertSent h w dateStr) = daily_processing w"
  by (simp add: recordAlertSent_def Let_def)

lemma latestProcessing_cong:
  "firestoreUp w' = firestoreUp w \<Longrightarrow> daily_processing w' = daily_processing w \<Longrightarrow>
   latestProcessing w' dateStr = latestProcessing w dateStr"
  by (simp add: latestProcessing_def)

text \<open>
  C3: for a date that is unprocessed and alertable, with no alert record for it yet and
  Firestore working, two alert checks in a row hand exactly one e-mail to the notification
  service and leave exactly one record for the date and the daily alert type. The first check
  calls \<open>sendAlert\<close> once, which delivers the e-mail through EmailJS or, when EmailJS is not
  configured or refuses it, queues it once for manual sending, and writes the record; the
  second check finds the record, returns false and leaves the state as it is.
\<close>

theorem alert_sent_once:
  assumes up: "firestoreUp w"
    and unprocessed: "latestProcessing w (formatDateString t) = Inr None"
    and alertable: "shouldSendAlert h1 t" "shouldSendAlert h2 t"
    and fresh: "dailyAlertsFor w (formatDateString t) = []"
  shows "let email = buildAlertEmailData h1 t;
             first = checkAndSendForDate h1 w (Time t);
             second = checkAndSendForDate h2 (snd first) (Time t)
         in fst first = Inr True \<and> fst second = Inr False \<and> snd second = snd first \<and>
            snd first = recordAlertSent h1 (snd (sendAlert h1 w email)) (formatDateString t) \<and>
            (if \<not> validateConfiguration (emailConfig w)
             then outbox (snd second) = outbox w \<and>
                  pending_emails (snd second) =
                    pending_emails (saveForManualSending h1 w email None)
             else case emailjs w email of
                    Inr text \<Rightarrow> outbox (snd second) = outbox w @ [email] \<and>
                                pending_emails (snd second) = pending_emails w
                  | Inl e \<Rightarrow> outbox (snd second) = outbox w \<and>
                             pending_emails (snd second) =
                               pending_emails (saveForManualSending h1 w email (Some (messageOf e)))) \<and>
            length (dailyAlertsFor (snd second) (formatDateString t)) = 1"
proof -
  let ?d = "formatDateString t"
  let ?e = "buildAlertEmailData h1 t"
  let ?w0 = "snd (sendAlert h1 w ?e)"
  let ?w1 = "recordAlertSent h1 ?w0 ?d"
  have first: "checkAndSendForDate h1 w (Time t) = (Inr True, ?w1)"
    using up alertable(1) fresh
    by (simp add: checkAndSendForDate_def unprocessed_check [OF unprocessed] first_send)
  have up0: "firestoreUp ?w0" and fresh0: "dailyAlertsFor ?w0 ?d = []"
    using up fresh by (simp_all add: dailyAlertsFor_def sendAlert_keeps)
  have alerts1: "dailyAlertsFor ?w1 ?d =
      [\<lparr> a_date = ?d, a_type = DAILY_PROCESSING, a_sentAt = now h1, a_recipient = ADMIN_EMAIL \<rparr>]"
    by (rule recorded [OF up0 fresh0])
  have up1: "firestoreUp ?w1"
    using up0 by (simp add: recordAlertSent_keeps)
  have "latestProcessing ?w1 ?d = latestProcessing w ?d"
    by (rule latestProcessing_cong) (simp_all add: recordAlertSent_keeps sendAlert_keeps)
  with unprocessed have unprocessed1: "latestProcessing ?w1 ?d = Inr None"
    by simp
  have second: "checkAndSendForDate h2 ?w1 (Time t) = (Inr False, ?w1)"
    using up1 alertable(2) alerts1
    by (simp add: checkAndSendForDate_def unprocessed_check [OF unprocessed1] second_send)
  have handed: "if \<not> validateConfiguration (emailConfig w)
      then outbox ?w1 = outbox w \<and>
           pending_emails ?w1 = pending_emails (saveForManualSending h1 w ?e None)
      else case emailjs w ?e of
             Inr text \<Rightarrow> outbox ?w1 = outbox w @ [?e] \<and> pending_emails ?w1 = pending_emails w
           | Inl e \<Rightarrow> outbox ?w1 = outbox w \<and>
                      pending_emails ?w1 =
                        pending_emails (saveForManualSending h1 w ?e (Some (messageOf e)))"
    by (simp add: recordAlertSent_keeps sendAlert_built saveForManualSending_keeps split: sum.split)
  show ?thesis
    unfolding Let_def first second fst_conv snd_conv
    using handed by (simp add: alerts1)
qed

theorem alert_sent_once_witness:
  "let w = emptyWorld; t = 1705276800000;
       email = buildAlertEmailData (utcHost 1705399200000) t;
       first = checkAndSendForDate (utcHost 1705399200000) w (Time t);
       second = checkAndSendForDate (utcHost 1705402800000) (snd first) (Time t)
   in fst first = Inr True \<and> fst second = Inr False \<and> snd second = snd first \<and>
      outbox (snd second) = [] \<and>
      pending_emails (snd second) =
        [(''email_1705399200000_4fzyo82mv'',
          \<lparr> p_email = email, p_status = ''pending'', p_error = None,
            p_createdAt = 1705399200000, p_attempts = 0 \<rparr>)] \<and>
      length (dailyAlertsFor (snd second) (formatDateString t)) = 1"
proof -
  have up: "firestoreUp emptyWorld"
    by (simp add: emptyWorld_def)
  have unprocessed: "latestProcessing emptyWorld (formatDateString 1705276800000) = Inr None"
    by (simp add: latestProcessing_def emptyWorld_def)
  have first_tick: "shouldSendAlert (utcHost 1705399200000) 1705276800000"
    by (simp add: shouldSendAlert_iff getDay_def utcHost_def msPerDay_def ALERT_DAYS_def)
  have second_tick: "shouldSendAlert (utcHost 1705402800000) 1705276800000"
    by (simp add: shouldSendAlert_iff getDay_def utcHost_def msPerDay_def ALERT_DAYS_def)
  have fresh: "dailyAlertsFor emptyWorld (formatDateString 1705276800000) = []"
    by (simp add: dailyAlertsFor_def emptyWorld_def)
  have unconfigured: "\<not> validateConfiguration (emailConfig emptyWorld)"
    by (simp add: validateConfiguration_def emptyWorld_def)
  have docId: "''email_'' @ intToString (now (utcHost 1705399200000)) @ ''_'' @
      take 9 (drop 2 (random36 (utcHost 1705399200000))) = ''email_1705399200000_4fzyo82mv''"
    by (simp add: utcHost_def num_evals)
  have queued: "pending_emails (saveForManualSending (utcHost 1705399200000) emptyWorld e None) =
      [(''email_1705399200000_4fzyo82mv'',
        \<lparr> p_email = e, p_status = ''pending'', p_error = None,
          p_createdAt = 1705399200000, p_attempts = 0 \<rparr>)]" for e
    unfolding saveForManualSending_def Let_def docId
    by (simp add: emptyWorld_def utcHost_def)
  have empty: "outbox emptyWorld = []"
    by (simp add: emptyWorld_def)
  let ?t = "1705276800000 :: int"
  let ?first = "checkAndSendForDate (utcHost 1705399200000) emptyWorld (Time ?t)"
  let ?second = "checkAndSendForDate (utcHost 1705402800000) (snd ?first) (Time ?t)"
  note run = alert_sent_once [OF up unprocessed first_tick second_tick fresh, unfolded Let_def]
  from run have results: "fst ?first = Inr True" "fst ?second = Inr False" "snd ?second = snd ?first"
    by blast+
  from run have recorded_once: "length (dailyAlertsFor (snd ?second) (formatDateString ?t)) = 1"
    by blast
  from run have
    "if \<not> validateConfiguration (emailConfig emptyWorld)
     then outbox (snd ?second) = outbox emptyWorld \<and>
          pending_emails (snd ?second) =
            pending_emails (saveForManualSending (utcHost 1705399200000) emptyWorld
              (buildAlertEmailData (utcHost 1705399200000) ?t) None)
     else case emailjs emptyWorld (buildAlertEmailData (utcHost 1705399200000) ?t) of
            Inr text \<Rightarrow> outbox (snd ?second) =
                outbox emptyWorld @ [buildAlertEmailData (utcHost 1705399200000) ?t] \<and>
              pending_emails (snd ?second) = pending_emails emptyWorld
          | Inl e \<Rightarrow> outbox (snd ?second) = outbox emptyWorld \<and>
              pending_emails (snd ?second) =
                pending_emails (saveForManualSending (utcHost 1705399200000) emptyWorld
                  (buildAlertEmailData (utcHost 1705399200000) ?t) (Some (messageOf e)))"
    by blast
  with unconfigured have handed:
    "outbox (snd ?second) = []"
    "pending_emails (snd ?second) =
       [(''email_1705399200000_4fzyo82mv'',
         \<lparr> p_email = buildAlertEmailData (utcHost 1705399200000) ?t, p_status = ''pending'',
           p_error = None, p_createdAt = 1705399200000, p_attempts = 0 \<rparr>)]"
    by (simp_all add: queued empty)
  show ?thesis
    unfolding Let_def using results recorded_once handed by blast
qed

end
